theory Spec2Isabelle
  imports Complex_Main "HOL-Library.Word"
begin

section \<open>Build-time Open Graph image generation (scripts/generate-og-images.ts)\<close>

text \<open>
  A shallow embedding of \<^verbatim>\<open>scripts/generate-og-images.ts\<close>. The script's own
  functions (\<^verbatim>\<open>downloadFile\<close>, \<^verbatim>\<open>loadImageAsBase64\<close>, \<^verbatim>\<open>createOGTemplate\<close>,
  \<^verbatim>\<open>generateOGImage\<close>, \<^verbatim>\<open>main\<close>) are translated line by line. What the script
  calls but does not define (the file system, the HTTPS client, the path module, Satori
  and Resvg) is a parameter of the model.
\<close>

subsection \<open>Values shared by the whole script\<close>

type_synonym bytes = "8 word list"

text \<open>
  Every exception the script can see. \<^verbatim>\<open>new Error(`HTTP ${response.statusCode}`)\<close> is
  the only error the script constructs itself; all others are raised by the platform or
  by a library and carry that component's message.
\<close>

datatype error =
    HttpError nat
  | External string

text \<open>
  What becomes of an awaited promise: it is resolved with a value, it is rejected with
  an error, or the process dies before the promise is settled, of an exception that is
  thrown inside a callback and caught by nobody (\<open>Crashed\<close>, exit code 1).
\<close>

datatype 'a outcome = Resolved 'a | Rejected error | Crashed error

subsection \<open>downloadFile\<close>

text \<open>
  What \<^verbatim>\<open>https.get(url, callback)\<close> does. The call itself throws when it refuses
  the URL (a relative URL, an empty one, a protocol other than \<^verbatim>\<open>https:\<close>); or the
  request emits \<^verbatim>\<open>'error'\<close> (no response arrives); or the callback receives a
  response: a status code, the \<^verbatim>\<open>location\<close> header (\<^verbatim>\<open>undefined\<close> when the header
  is missing) and the events the response stream emits afterwards, in order.
\<close>

datatype stream_event = Data bytes | End | StreamError error

record response =
  statusCode :: nat
  location :: "string option"
  body :: "stream_event list"

datatype net_result = GetThrows error | RequestError error | Response response

text \<open>
  The three listeners of a 200 response:
  \<^verbatim>\<open>response.on('data', (chunk) => chunks.push(chunk))\<close>,
  \<^verbatim>\<open>response.on('end', () => resolve(Buffer.concat(chunks)))\<close> and
  \<^verbatim>\<open>response.on('error', reject)\<close>. The result is how the promise is settled, and
  \<open>None\<close> when the events run out before \<^verbatim>\<open>'end'\<close> or \<^verbatim>\<open>'error'\<close>: the promise
  stays pending. Only the first settlement counts, so events after it are not read.
\<close>

fun on_events :: "stream_event list \<Rightarrow> bytes list \<Rightarrow> bytes outcome option" where
  "on_events [] chunks = None"
| "on_events (Data chunk # es) chunks = on_events es (chunks @ [chunk])"
| "on_events (End # es) chunks = Some (Resolved (concat chunks))"
| "on_events (StreamError e # es) chunks = Some (Rejected e)"

text \<open>
  \<^verbatim>\<open>if (redirectUrl)\<close> is JavaScript truthiness: a string is truthy unless it is empty.
\<close>

definition truthy :: "string option \<Rightarrow> bool" where
  "truthy v = (case v of None \<Rightarrow> False | Some s \<Rightarrow> s \<noteq> [])"

text \<open>
  The inner function \<^verbatim>\<open>request\<close> of \<^verbatim>\<open>downloadFile\<close>. It calls itself on a
  redirect and nothing bounds the number of calls, so it is a partial function: \<open>None\<close>
  is a promise that is never settled while the process lives on (an endless redirect
  chain, or a stream that never ends).

  The flag says where the call stands. \<^verbatim>\<open>downloadFile\<close> calls \<^verbatim>\<open>request(url)\<close>
  inside the executor of \<^verbatim>\<open>new Promise\<close>, which turns an exception of
  \<^verbatim>\<open>https.get\<close> into a rejection. The call \<^verbatim>\<open>request(redirectUrl)\<close> stands in the
  response callback, where nothing catches the exception: the process dies.
\<close>

partial_function (option) request ::
  "(string \<Rightarrow> net_result) \<Rightarrow> bool \<Rightarrow> string \<Rightarrow> bytes outcome option" where
  "request get in_callback url =
     (case get url of
        GetThrows e \<Rightarrow> Some (if in_callback then Crashed e else Rejected e)
      | RequestError e \<Rightarrow> Some (Rejected e)
      | Response response \<Rightarrow>
          if (statusCode response = 301 \<or> statusCode response = 302) \<and> truthy (location response)
          then request get True (the (location response))
          else if statusCode response \<noteq> 200
          then Some (Rejected (HttpError (statusCode response)))
          else on_events (body response) [])"

declare request.simps [code]

definition downloadFile :: "(string \<Rightarrow> net_result) \<Rightarrow> string \<Rightarrow> bytes outcome option" where
  "downloadFile get url = request get False url"


subsection \<open>JavaScript strings and values\<close>

text \<open>
  A string is a list of characters. \<^verbatim>\<open>toLowerCase\<close> is modelled on the letters A to
  Z and keeps every other character. Its result is only compared with lower-case ASCII
  keys, and JavaScript lowers no other character to a letter of one of these keys.
\<close>

definition lower_char :: "char \<Rightarrow> char" where
  "lower_char c =
     (let n = (of_char c :: nat) in if 65 \<le> n \<and> n \<le> 90 then char_of (n + 32) else c)"

definition toLowerCase :: "string \<Rightarrow> string" where
  "toLowerCase s = map lower_char s"

text \<open>
  \<^verbatim>\<open>s.split(sep)\<close> for a separator of one character: the pieces between the
  separators, at least one piece. \<^verbatim>\<open>pop()\<close> returns the last element, and
  \<^verbatim>\<open>undefined\<close> on an empty array.
\<close>

fun split :: "char \<Rightarrow> string \<Rightarrow> string list" where
  "split sep [] = [[]]"
| "split sep (c # cs) =
     (if c = sep then [] # split sep cs
      else (case split sep cs of [] \<Rightarrow> [[c]] | piece # pieces \<Rightarrow> (c # piece) # pieces))"

definition pop :: "'a list \<Rightarrow> 'a option" where
  "pop xs = (if xs = [] then None else Some (last xs))"

text \<open>\<^verbatim>\<open>s.includes(sub)\<close>: \<open>sub\<close> occurs in \<open>s\<close> at some position.\<close>

fun str_includes :: "string \<Rightarrow> string \<Rightarrow> bool" where
  "str_includes [] sub = (sub = [])"
| "str_includes (c # cs) sub = (take (length sub) (c # cs) = sub \<or> str_includes cs sub)"

text \<open>
  What a property read \<^verbatim>\<open>obj[key]\<close> on an object literal with string values can
  yield: \<^verbatim>\<open>undefined\<close>, one of the literal's own strings, or what the key finds on
  \<^verbatim>\<open>Object.prototype\<close>: a built-in function, or the prototype object itself.
\<close>

datatype jsval =
    Undefined
  | Str string
  | NativeFunction string
  | ObjectPrototype

text \<open>\<^verbatim>\<open>a || b\<close> yields \<open>a\<close> when \<open>a\<close> is truthy, and \<open>b\<close> otherwise.\<close>

fun truthy_val :: "jsval \<Rightarrow> bool" where
  "truthy_val Undefined = False"
| "truthy_val (Str s) = (s \<noteq> [])"
| "truthy_val (NativeFunction f) = True"
| "truthy_val ObjectPrototype = True"

definition or_else :: "jsval \<Rightarrow> jsval \<Rightarrow> jsval" where
  "or_else a b = (if truthy_val a then a else b)"

text \<open>
  What a template literal \<^verbatim>\<open>`${v}`\<close> inserts for a value: the string itself, the
  source text of a built-in function, \<^verbatim>\<open>[object Object]\<close> for a plain object.
\<close>

fun interpolate :: "jsval \<Rightarrow> string" where
  "interpolate Undefined = ''undefined''"
| "interpolate (Str s) = s"
| "interpolate (NativeFunction f) = ''function '' @ f @ ''() { [native code] }''"
| "interpolate ObjectPrototype = ''[object Object]''"

text \<open>
  \<^verbatim>\<open>buffer.toString('base64')\<close>: three bytes become four characters of the standard
  alphabet, the last group is padded with \<^verbatim>\<open>=\<close>.
\<close>

definition base64_alphabet :: string where
  "base64_alphabet = ''ABCDEFGHIJKLMNOPQRSTUVWXYZabcdefghijklmnopqrstuvwxyz0123456789+/''"

definition sextet :: "nat \<Rightarrow> char" where
  "sextet n = base64_alphabet ! (n mod 64)"

fun toBase64 :: "bytes \<Rightarrow> string" where
  "toBase64 [] = []"
| "toBase64 [a] =
     (let n = unat a * 65536
      in [sextet (n div 262144), sextet (n div 4096), CHR ''='', CHR ''=''])"
| "toBase64 [a, b] =
     (let n = unat a * 65536 + unat b * 256
      in [sextet (n div 262144), sextet (n div 4096), sextet (n div 64), CHR ''=''])"
| "toBase64 (a # b # c # rest) =
     (let n = unat a * 65536 + unat b * 256 + unat c
      in [sextet (n div 262144), sextet (n div 4096), sextet (n div 64), sextet n]
         @ toBase64 rest)"

subsection \<open>Configuration\<close>

record accent =
  start :: string
  middle :: string
  end_color :: string

text \<open>
  \<^verbatim>\<open>interface PageConfig\<close>; an optional field is an \<open>option\<close>. The field
  \<^verbatim>\<open>end\<close> of \<^verbatim>\<open>accentColors\<close> is \<open>end_color\<close> here.
\<close>

record PageConfig =
  slug :: string
  title :: string
  subtitle :: string
  description :: string
  badge :: string
  bgImage :: "string option"
  accentColors :: "accent option"

definition OG_WIDTH :: nat where "OG_WIDTH = 1200"
definition OG_HEIGHT :: nat where "OG_HEIGHT = 630"

definition DEFAULT_BG_URL :: string where
  "DEFAULT_BG_URL = ''https://assets.jozapf.de/jpg/og_image_v2_1200x630_jozapf_de.jpg''"

definition PAGES :: "PageConfig list" where
  "PAGES =
    [\<lparr>slug = ''home'', title = ''Dynamic OG Generator'',
      subtitle = ''Build-Time Social Media Images'',
      description = ''Generate beautiful Open Graph images at build time for Next.js static export projects. No server required.'',
      badge = ''github.com'', bgImage = None, accentColors = None\<rparr>,
     \<lparr>slug = ''docs'', title = ''Documentation'',
      subtitle = ''Setup & Configuration Guide'',
      description = ''Learn how to integrate the Dynamic OG Generator into your Next.js project with step-by-step instructions.'',
      badge = ''docs'', bgImage = None,
      accentColors = Some \<lparr>start = ''#3b82f6'', middle = ''#8b5cf6'', end_color = ''#ec4899''\<rparr>\<rparr>,
     \<lparr>slug = ''blog-getting-started'', title = ''Getting Started'',
      subtitle = ''Your First OG Image in 5 Minutes'',
      description = ''A quick tutorial on creating professional social media preview images for your static website.'',
      badge = ''blog'', bgImage = None,
      accentColors = Some \<lparr>start = ''#10b981'', middle = ''#14b8a6'', end_color = ''#06b6d4''\<rparr>\<rparr>]"

subsection \<open>The visual tree\<close>

text \<open>
  The object literals \<^verbatim>\<open>{ type, props: { src?, style, children? } }\<close> that
  \<^verbatim>\<open>createOGTemplate\<close> returns. A style is the list of its entries in source order; an
  entry is a string or a number. \<^verbatim>\<open>children\<close> is missing, a text, or an array of nodes.
\<close>

datatype css = Txt string | Num rat

datatype vnode = VNode (node_type: string) (src: "string option") (style: "(string \<times> css) list") (children: kids)
  and kids = NoChildren | Text string | Nodes "vnode list"

record font =
  name :: string
  data :: bytes
  weight :: nat
  font_style :: string

subsection \<open>The platform\<close>

text \<open>
  Everything the script imports. The file system is a value of an arbitrary type \<open>'fs\<close>
  with the four \<^verbatim>\<open>fs\<close> functions the script calls; a call that raises returns the
  error. \<^verbatim>\<open>writeFileSync\<close> and \<^verbatim>\<open>mkdirSync\<close> return the file system they leave
  behind also when they raise. \<^verbatim>\<open>https_get\<close> is what \<^verbatim>\<open>https.get\<close> delivers for a
  URL. \<^verbatim>\<open>satori\<close> receives the tree, the width, the height and the fonts, and
  \<^verbatim>\<open>resvg\<close> stands for \<^verbatim>\<open>new Resvg(svg, {fitTo: width}).render().asPng()\<close>; both
  either raise or return. \<^verbatim>\<open>join\<close> and \<^verbatim>\<open>dirname\<close> are those of the path module,
  and \<^verbatim>\<open>PROJECT_ROOT\<close> is the value \<^verbatim>\<open>join(__dirname, '..')\<close> has at start.
\<close>

record 'fs sys =
  existsSync :: "'fs \<Rightarrow> string \<Rightarrow> bool"
  readFileSync :: "'fs \<Rightarrow> string \<Rightarrow> error + bytes"
  writeFileSync :: "'fs \<Rightarrow> string \<Rightarrow> bytes \<Rightarrow> 'fs \<times> error option"
  mkdirSync :: "'fs \<Rightarrow> string \<Rightarrow> 'fs \<times> error option"
  https_get :: "string \<Rightarrow> net_result"
  satori :: "vnode \<Rightarrow> nat \<Rightarrow> nat \<Rightarrow> font list \<Rightarrow> error + string"
  resvg :: "string \<Rightarrow> nat \<Rightarrow> error + bytes"
  join :: "string list \<Rightarrow> string"
  dirname :: "string \<Rightarrow> string"
  PROJECT_ROOT :: string

definition OUTPUT_DIR :: "'fs sys \<Rightarrow> string" where
  "OUTPUT_DIR sys = join sys [PROJECT_ROOT sys, ''public'', ''og'']"

definition FONTS_DIR :: "'fs sys \<Rightarrow> string" where
  "FONTS_DIR sys = join sys [PROJECT_ROOT sys, ''assets'', ''fonts'']"

definition DEFAULT_BG_PATH :: "'fs sys \<Rightarrow> string" where
  "DEFAULT_BG_PATH sys = join sys [PROJECT_ROOT sys, ''assets'', ''bg'', ''og-background.jpg'']"

text \<open>
  What a run leaves behind: the file system, and the trace of what it did. A trace
  entry is a line on the console, a call of \<^verbatim>\<open>readFileSync\<close> (\<open>Read\<close>, with the
  path), a call of \<^verbatim>\<open>downloadFile\<close> (\<open>Fetch\<close>, with the URL), or a
  \<^verbatim>\<open>writeFileSync\<close> that returned (\<open>Wrote\<close>, with the path). Each console call of
  the script is one constructor of \<open>msg\<close>, holding the values its template inserts.
\<close>

datatype msg =
    Banner nat
  | OutputDirectory string
  | LoadingDefault
  | DownloadingDefault
  | SavedLocally
  | DownloadFailed
  | GradientFallback
  | LoadingBackground string
  | BackgroundNotFound string string
  | FallingBack
  | FontNotFound string
  | RunSetup
  | FontsLoaded
  | GeneratingImages
  | PageStart string
  | PageDone string
  | PageFailed
  | PageError error
  | Summary nat nat
  | SummaryFile string
  | Uncaught error
  | FatalException error

datatype event = Console msg | Read string | Fetch string | Wrote string

record 'fs state =
  disk :: 'fs
  trace :: "event list"

definition emit :: "event \<Rightarrow> 'fs state \<Rightarrow> 'fs state" where
  "emit e s = s\<lparr>trace := trace s @ [e]\<rparr>"

definition say :: "msg \<Rightarrow> 'fs state \<Rightarrow> 'fs state" where
  "say m s = emit (Console m) s"

text \<open>
  How a stretch of \<^verbatim>\<open>main\<close> ends: it runs to its end with a value, it raises, or
  the process ends with an exit code (\<^verbatim>\<open>process.exit\<close>, or an exception nobody
  catches).
\<close>

datatype ('fs, 'a) result =
    Returns 'a "'fs state"
  | Throws error "'fs state"
  | Exits nat "'fs state"

text \<open>The state in which the stretch ends.\<close>

fun final :: "('fs, 'a) result \<Rightarrow> 'fs state" where
  "final (Returns a s) = s"
| "final (Throws e s) = s"
| "final (Exits n s) = s"

subsection \<open>loadImageAsBase64\<close>

text \<open>
  \<^verbatim>\<open>mimeTypes[key]\<close>. \<^verbatim>\<open>mimeTypes\<close> is an object literal, so a key that is not one
  of its four own keys is looked up on \<^verbatim>\<open>Object.prototype\<close>.
\<close>

definition object_prototype_functions :: "string list" where
  "object_prototype_functions =
     [''__defineGetter__'', ''__defineSetter__'', ''hasOwnProperty'', ''__lookupGetter__'',
      ''__lookupSetter__'', ''isPrototypeOf'', ''propertyIsEnumerable'', ''toString'',
      ''valueOf'', ''toLocaleString'']"

definition mimeTypes :: "string \<Rightarrow> jsval" where
  "mimeTypes key =
     (if key = ''jpg'' then Str ''image/jpeg''
      else if key = ''jpeg'' then Str ''image/jpeg''
      else if key = ''png'' then Str ''image/png''
      else if key = ''webp'' then Str ''image/webp''
      else if key = ''constructor'' then NativeFunction ''Object''
      else if key = ''__proto__'' then ObjectPrototype
      else if key \<in> set object_prototype_functions then NativeFunction key
      else Undefined)"

definition loadImageAsBase64 :: "'fs sys \<Rightarrow> string \<Rightarrow> 'fs state \<Rightarrow> (error + string) \<times> 'fs state" where
  "loadImageAsBase64 sys imagePath s =
     (case readFileSync sys (disk s) imagePath of
        Inl e \<Rightarrow> (Inl e, emit (Read imagePath) s)
      | Inr imageBuffer \<Rightarrow>
          (let base64 = toBase64 imageBuffer;
               ext = pop (split CHR ''.'' (toLowerCase imagePath));
               mimeType = or_else (mimeTypes (if truthy ext then the ext else ''jpg''))
                                  (Str ''image/jpeg'')
           in (Inr (''data:'' @ interpolate mimeType @ '';base64,'' @ base64),
               emit (Read imagePath) s)))"

subsection \<open>createOGTemplate\<close>

text \<open>
  \<^verbatim>\<open>page.accentColors || {start: '#e26b34', middle: '#336851', end: '#1b3c65'}\<close>: an
  object is always truthy, so the override is taken whenever the field is present.
\<close>

definition default_colors :: accent where
  "default_colors = \<lparr>start = ''#e26b34'', middle = ''#336851'', end_color = ''#1b3c65''\<rparr>"

definition createOGTemplate :: "PageConfig \<Rightarrow> string \<Rightarrow> vnode" where
  "createOGTemplate page bgImageDataUrl =
    (let colors = (case accentColors page of Some c \<Rightarrow> c | None \<Rightarrow> default_colors) in
     VNode ''div'' None
       [(''width'', Txt ''100%''), (''height'', Txt ''100%''), (''display'', Txt ''flex''),
        (''alignItems'', Txt ''center''), (''justifyContent'', Txt ''center''),
        (''position'', Txt ''relative''), (''fontFamily'', Txt ''Montserrat''),
        (''overflow'', Txt ''hidden'')]
       (Nodes
         [VNode ''img'' (Some bgImageDataUrl)
            [(''position'', Txt ''absolute''), (''top'', Num 0), (''left'', Num 0),
             (''width'', Txt ''100%''), (''height'', Txt ''100%''), (''objectFit'', Txt ''cover'')]
            NoChildren,
          VNode ''div'' None
            [(''position'', Txt ''absolute''), (''top'', Num 0), (''left'', Num 0),
             (''right'', Num 0), (''bottom'', Num 0),
             (''background'', Txt ''linear-gradient(135deg, rgba(26,26,46,0.88) 0%, rgba(22,33,62,0.85) 50%, rgba(15,52,96,0.82) 100%)'')]
            NoChildren,
          VNode ''div'' None
            [(''width'', Num 1100), (''height'', Num 550), (''borderRadius'', Num 32),
             (''padding'', Txt ''48px 56px''), (''display'', Txt ''flex''),
             (''flexDirection'', Txt ''column''), (''alignItems'', Txt ''center''),
             (''justifyContent'', Txt ''center''), (''position'', Txt ''relative''),
             (''background'', Txt ''linear-gradient(145deg, rgba(255,255,255,0.12) 0%, rgba(255,255,255,0.05) 100%)''),
             (''border'', Txt ''1px solid rgba(255,255,255,0.18)''),
             (''boxShadow'', Txt ''0 25px 50px -12px rgba(0,0,0,0.5)'')]
            (Nodes
              [VNode ''div'' None
                 [(''position'', Txt ''absolute''), (''top'', Num 0), (''left'', Num 0),
                  (''right'', Num 0), (''height'', Txt ''50%''),
                  (''borderRadius'', Txt ''32px 32px 0 0''),
                  (''background'', Txt ''linear-gradient(180deg, rgba(255,255,255,0.15) 0%, rgba(255,255,255,0.02) 60%, transparent 100%)'')]
                 NoChildren,
               VNode ''div'' None
                 [(''position'', Txt ''absolute''), (''top'', Num 28), (''display'', Txt ''flex''),
                  (''padding'', Txt ''10px 28px''), (''borderRadius'', Num 50),
                  (''background'', Txt ''rgba(255,255,255,0.15)''),
                  (''border'', Txt ''1px solid rgba(255,255,255,0.25)''),
                  (''fontSize'', Num 20), (''fontWeight'', Num 500),
                  (''color'', Txt ''rgba(255,255,255,0.9)''), (''letterSpacing'', Txt ''0.5px'')]
                 (Text (badge page)),
               VNode ''div'' None
                 [(''marginTop'', Num 32), (''fontSize'', Num 64), (''fontWeight'', Num 700),
                  (''color'', Txt ''#ffffff''), (''textAlign'', Txt ''center''),
                  (''lineHeight'', Num (11 / 10)), (''letterSpacing'', Txt ''-1px'')]
                 (Text (title page)),
               VNode ''div'' None
                 [(''marginTop'', Num 8), (''fontSize'', Num 32), (''fontWeight'', Num 500),
                  (''color'', Txt ''rgba(255,255,255,0.85)''), (''textAlign'', Txt ''center''),
                  (''lineHeight'', Num (13 / 10))]
                 (Text (subtitle page)),
               VNode ''div'' None
                 [(''marginTop'', Num 32), (''width'', Num 120), (''height'', Num 3),
                  (''borderRadius'', Num 2),
                  (''background'', Txt (''linear-gradient(90deg, '' @ start colors @ '' 0%, ''
                      @ middle colors @ '' 50%, '' @ end_color colors @ '' 100%)''))]
                 NoChildren,
               VNode ''div'' None
                 [(''marginTop'', Num 28), (''maxWidth'', Num 900), (''fontSize'', Num 24),
                  (''fontWeight'', Num 400), (''color'', Txt ''rgba(255,255,255,0.7)''),
                  (''textAlign'', Txt ''center''), (''lineHeight'', Num (15 / 10))]
                 (Text (description page))])]))"

text \<open>
  Reading the tree: the \<open>i\<close>-th child of a node, and the value of a style entry.
  The divider is the fifth child of the card, which is the third child of the root.
\<close>

definition child :: "nat \<Rightarrow> vnode \<Rightarrow> vnode option" where
  "child i n = (case children n of Nodes ns \<Rightarrow> (if i < length ns then Some (ns ! i) else None)
                | _ \<Rightarrow> None)"

definition style_of :: "string \<Rightarrow> vnode \<Rightarrow> css option" where
  "style_of key n = map_of (style n) key"

definition divider :: "vnode \<Rightarrow> vnode option" where
  "divider tree = (case child 2 tree of None \<Rightarrow> None | Some c \<Rightarrow> child 4 c)"

subsection \<open>generateOGImage\<close>

definition generateOGImage ::
  "'fs sys \<Rightarrow> PageConfig \<Rightarrow> string \<Rightarrow> font list \<Rightarrow> 'fs state \<Rightarrow> (error + string) \<times> 'fs state" where
  "generateOGImage sys page bgImageDataUrl fonts s =
     (let filename = ''og-'' @ slug page @ ''.png'' in
      case satori sys (createOGTemplate page bgImageDataUrl) OG_WIDTH OG_HEIGHT fonts of
        Inl e \<Rightarrow> (Inl e, s)
      | Inr svg \<Rightarrow>
          (case resvg sys svg OG_WIDTH of
             Inl e \<Rightarrow> (Inl e, s)
           | Inr pngBuffer \<Rightarrow>
               (let outputPath = join sys [OUTPUT_DIR sys, filename] in
                case writeFileSync sys (disk s) outputPath pngBuffer of
                  (d, Some e) \<Rightarrow> (Inl e, s\<lparr>disk := d\<rparr>)
                | (d, None) \<Rightarrow> (Inr filename, emit (Wrote outputPath) (s\<lparr>disk := d\<rparr>)))))"

subsection \<open>main: the background cache\<close>

text \<open>
  \<^verbatim>\<open>bgCache\<close> is a \<^verbatim>\<open>Map<string, string>\<close> from a path to a data URI. The set
  \<^verbatim>\<open>bgPaths\<close> that \<^verbatim>\<open>main\<close> fills before is never read and is left out.
\<close>

type_synonym cache = "string \<rightharpoonup> string"

definition placeholder :: string where
  "placeholder = ''data:image/png;base64,iVBORw0KGgoAAAANSUhEUgAAAAEAAAABCAYAAAAfFcSJAAAADUlEQVR42mNk+M9QDwADhgGAWjR9awAAAABJRU5ErkJggg==''"

text \<open>Lines 438 to 442: ensure the output directory exists, and announce it.\<close>

definition ensureOutputDir :: "'fs sys \<Rightarrow> 'fs state \<Rightarrow> ('fs, unit) result" where
  "ensureOutputDir sys s =
     (if \<not> existsSync sys (disk s) (OUTPUT_DIR sys) then
        (case mkdirSync sys (disk s) (OUTPUT_DIR sys) of
           (d, Some e) \<Rightarrow> Throws e (s\<lparr>disk := d\<rparr>)
         | (d, None) \<Rightarrow> Returns () (say (OutputDirectory (OUTPUT_DIR sys)) (s\<lparr>disk := d\<rparr>)))
      else Returns () (say (OutputDirectory (OUTPUT_DIR sys)) s))"

text \<open>
  Lines 463 to 471, the body of the \<^verbatim>\<open>try\<close> block: await the download, build the
  data URI, cache it, create the directory if it is missing, save the bytes. \<open>None\<close>
  when the download is never settled. When the process dies during the download, the
  run ends there with exit code 1, after the report of the exception.
\<close>

definition tryDownload :: "'fs sys \<Rightarrow> cache \<Rightarrow> 'fs state \<Rightarrow> ('fs, cache) result option" where
  "tryDownload sys bgCache s =
     (case downloadFile (https_get sys) DEFAULT_BG_URL of
        None \<Rightarrow> None
      | Some (Crashed e) \<Rightarrow>
          Some (Exits 1 (say (FatalException e) (emit (Fetch DEFAULT_BG_URL) s)))
      | Some (Rejected e) \<Rightarrow> Some (Throws e (emit (Fetch DEFAULT_BG_URL) s))
      | Some (Resolved buffer) \<Rightarrow>
          (let s1 = emit (Fetch DEFAULT_BG_URL) s;
               dataUrl = ''data:image/jpeg;base64,'' @ toBase64 buffer;
               bgCache1 = bgCache(DEFAULT_BG_PATH sys \<mapsto> dataUrl);
               bgDir = dirname sys (DEFAULT_BG_PATH sys)
           in case (if \<not> existsSync sys (disk s1) bgDir then mkdirSync sys (disk s1) bgDir
                    else (disk s1, None)) of
                (d, Some e) \<Rightarrow> Some (Throws e (s1\<lparr>disk := d\<rparr>))
              | (d, None) \<Rightarrow>
                  (case writeFileSync sys d (DEFAULT_BG_PATH sys) buffer of
                     (d', Some e) \<Rightarrow> Some (Throws e (s1\<lparr>disk := d'\<rparr>))
                   | (d', None) \<Rightarrow>
                       Some (Returns bgCache1
                         (say SavedLocally (emit (Wrote (DEFAULT_BG_PATH sys)) (s1\<lparr>disk := d'\<rparr>)))))))"

text \<open>
  Lines 455 to 477: load or download the default background. The \<^verbatim>\<open>catch\<close> block sets the entry of the
  default path, the only entry the \<^verbatim>\<open>try\<close> block can have set, to the placeholder.
\<close>

definition loadDefaultBackground :: "'fs sys \<Rightarrow> 'fs state \<Rightarrow> ('fs, cache) result option" where
  "loadDefaultBackground sys s =
     (let bgCache = Map.empty in
      if existsSync sys (disk s) (DEFAULT_BG_PATH sys) then
        (case loadImageAsBase64 sys (DEFAULT_BG_PATH sys) (say LoadingDefault s) of
           (Inl e, s') \<Rightarrow> Some (Throws e s')
         | (Inr dataUrl, s') \<Rightarrow> Some (Returns (bgCache(DEFAULT_BG_PATH sys \<mapsto> dataUrl)) s'))
      else
        (case tryDownload sys bgCache (say DownloadingDefault s) of
           None \<Rightarrow> None
         | Some (Throws e s') \<Rightarrow>
             Some (Returns (bgCache(DEFAULT_BG_PATH sys \<mapsto> placeholder))
                     (say GradientFallback (say DownloadFailed s')))
         | Some r \<Rightarrow> Some r))"

text \<open>Lines 479 to 493: load per-page background images, the loop over the pages.\<close>

fun loadPageBackgrounds ::
  "'fs sys \<Rightarrow> PageConfig list \<Rightarrow> cache \<Rightarrow> 'fs state \<Rightarrow> ('fs, cache) result" where
  "loadPageBackgrounds sys [] bgCache s = Returns bgCache s"
| "loadPageBackgrounds sys (page # rest) bgCache s =
     (if truthy (bgImage page) then
        (let fullPath = join sys [PROJECT_ROOT sys, the (bgImage page)] in
         if bgCache fullPath = None then
           (if existsSync sys (disk s) fullPath then
              (case loadImageAsBase64 sys fullPath (say (LoadingBackground (slug page)) s) of
                 (Inl e, s') \<Rightarrow> Throws e s'
               | (Inr dataUrl, s') \<Rightarrow>
                   loadPageBackgrounds sys rest (bgCache(fullPath \<mapsto> dataUrl)) s')
            else loadPageBackgrounds sys rest bgCache
                   (say FallingBack (say (BackgroundNotFound (slug page) (the (bgImage page))) s)))
         else loadPageBackgrounds sys rest bgCache s)
      else loadPageBackgrounds sys rest bgCache s)"

text \<open>Both stages together: everything \<^verbatim>\<open>main\<close> does to fill \<^verbatim>\<open>bgCache\<close>.\<close>

definition loadBackgrounds ::
  "'fs sys \<Rightarrow> PageConfig list \<Rightarrow> 'fs state \<Rightarrow> ('fs, cache) result option" where
  "loadBackgrounds sys pages s =
     (case loadDefaultBackground sys s of
        None \<Rightarrow> None
      | Some (Returns bgCache s') \<Rightarrow> Some (loadPageBackgrounds sys pages bgCache s')
      | Some r \<Rightarrow> Some r)"

subsection \<open>main: the fonts\<close>

text \<open>
  Lines 496 to 514: the loop over the three font files, on the array \<^verbatim>\<open>fonts\<close>. A
  missing file ends the process with \<^verbatim>\<open>process.exit(1)\<close>.
\<close>

definition fontFiles :: "string list" where
  "fontFiles = [''Montserrat-Bold.ttf'', ''Montserrat-Medium.ttf'', ''Montserrat-Regular.ttf'']"

fun loadFonts :: "'fs sys \<Rightarrow> string list \<Rightarrow> font list \<Rightarrow> 'fs state \<Rightarrow> ('fs, font list) result" where
  "loadFonts sys [] fonts s = Returns fonts s"
| "loadFonts sys (fontFile # rest) fonts s =
     (let fontPath = join sys [FONTS_DIR sys, fontFile] in
      if \<not> existsSync sys (disk s) fontPath then
        Exits 1 (say RunSetup (say (FontNotFound fontPath) s))
      else
        (let weight = (if str_includes fontFile ''Bold'' then 700
                       else if str_includes fontFile ''Medium'' then 500 else 400)
         in case readFileSync sys (disk s) fontPath of
              Inl e \<Rightarrow> Throws e (emit (Read fontPath) s)
            | Inr bytes \<Rightarrow>
                loadFonts sys rest
                  (fonts @ [\<lparr>name = ''Montserrat'', data = bytes, weight = weight,
                             font_style = ''normal''\<rparr>])
                  (emit (Read fontPath) s)))"

subsection \<open>main: generating the images\<close>

text \<open>\<^verbatim>\<open>bgCache.get(path) || fallback\<close>.\<close>

definition get_or :: "cache \<Rightarrow> string \<Rightarrow> string \<Rightarrow> string" where
  "get_or bgCache path fallback = (if truthy (bgCache path) then the (bgCache path) else fallback)"

text \<open>Lines 523 to 527: resolve background, per-page override, else default.\<close>

definition effectiveBackground :: "'fs sys \<Rightarrow> cache \<Rightarrow> PageConfig \<Rightarrow> string" where
  "effectiveBackground sys bgCache page =
     (let bgDataUrl = get_or bgCache (DEFAULT_BG_PATH sys) [] in
      if truthy (bgImage page)
      then get_or bgCache (join sys [PROJECT_ROOT sys, the (bgImage page)]) bgDataUrl
      else bgDataUrl)"

text \<open>
  Lines 521 to 538: one round of the loop \<^verbatim>\<open>for (const page of PAGES)\<close>, with its \<^verbatim>\<open>try\<close> and
  \<^verbatim>\<open>catch\<close>, on the list \<^verbatim>\<open>generated\<close> and the state.
\<close>

definition generatePage ::
  "'fs sys \<Rightarrow> cache \<Rightarrow> font list \<Rightarrow> PageConfig \<Rightarrow> string list \<times> 'fs state \<Rightarrow> string list \<times> 'fs state" where
  "generatePage sys bgCache fonts page gs =
     (case gs of (generated, s) \<Rightarrow>
        (let bgDataUrl = effectiveBackground sys bgCache page in
         case generateOGImage sys page bgDataUrl fonts (say (PageStart (slug page)) s) of
           (Inr filename, s') \<Rightarrow> (generated @ [filename], say (PageDone filename) s')
         | (Inl e, s') \<Rightarrow> (generated, say (PageError e) (say PageFailed s'))))"

fun generateLoop ::
  "'fs sys \<Rightarrow> cache \<Rightarrow> font list \<Rightarrow> PageConfig list \<Rightarrow> string list \<times> 'fs state \<Rightarrow> string list \<times> 'fs state" where
  "generateLoop sys bgCache fonts [] gs = gs"
| "generateLoop sys bgCache fonts (page # rest) gs =
     generateLoop sys bgCache fonts rest (generatePage sys bgCache fonts page gs)"

text \<open>
  The generation stage with its summary: the loop over all pages, then
  \<^verbatim>\<open>Generated ${generated.length}/${PAGES.length} OG images\<close> and one line per file.
\<close>

definition generateImages ::
  "'fs sys \<Rightarrow> cache \<Rightarrow> font list \<Rightarrow> PageConfig list \<Rightarrow> 'fs state \<Rightarrow> string list \<times> 'fs state" where
  "generateImages sys bgCache fonts pages s =
     (case generateLoop sys bgCache fonts pages ([], say GeneratingImages s) of
        (generated, s') \<Rightarrow>
          (generated,
           foldl (\<lambda>st f. say (SummaryFile f) st)
             (say (Summary (length generated) (length pages)) s') generated))"

subsection \<open>main\<close>

text \<open>
  \<^verbatim>\<open>main\<close> takes the list of pages as an argument; the script runs it on
  \<open>PAGES\<close>. First everything before the fonts: the banner, the output directory, the
  backgrounds.
\<close>

definition loadAssets :: "'fs sys \<Rightarrow> PageConfig list \<Rightarrow> 'fs \<Rightarrow> ('fs, cache) result option" where
  "loadAssets sys pages d0 =
     (case ensureOutputDir sys (say (Banner (length pages)) \<lparr>disk = d0, trace = []\<rparr>) of
        Throws e s \<Rightarrow> Some (Throws e s)
      | Exits n s \<Rightarrow> Some (Exits n s)
      | Returns u s \<Rightarrow> loadBackgrounds sys pages s)"

definition main :: "'fs sys \<Rightarrow> PageConfig list \<Rightarrow> 'fs \<Rightarrow> ('fs, unit) result option" where
  "main sys pages d0 =
     (case loadAssets sys pages d0 of
        None \<Rightarrow> None
      | Some (Throws e s) \<Rightarrow> Some (Throws e s)
      | Some (Exits n s) \<Rightarrow> Some (Exits n s)
      | Some (Returns bgCache s) \<Rightarrow>
          (case loadFonts sys fontFiles [] s of
             Throws e s' \<Rightarrow> Some (Throws e s')
           | Exits n s' \<Rightarrow> Some (Exits n s')
           | Returns fonts s' \<Rightarrow>
               Some (Returns ()
                 (snd (generateImages sys bgCache fonts pages (say FontsLoaded s'))))))"

text \<open>
  The last line of the script, \<^verbatim>\<open>main().catch(console.error)\<close>: the exit code of the
  process and the state it leaves, \<open>None\<close> when it never ends. An exception that leaves
  \<^verbatim>\<open>main\<close> is printed and the process ends with code 0; only \<^verbatim>\<open>process.exit(1)\<close>
  gives another code.
\<close>

definition script :: "'fs sys \<Rightarrow> PageConfig list \<Rightarrow> 'fs \<Rightarrow> (nat \<times> 'fs state) option" where
  "script sys pages d0 =
     (case main sys pages d0 of
        None \<Rightarrow> None
      | Some (Returns u s) \<Rightarrow> Some (0, s)
      | Some (Throws e s) \<Rightarrow> Some (0, say (Uncaught e) s)
      | Some (Exits n s) \<Rightarrow> Some (n, s))"

subsection \<open>Reading a trace\<close>

text \<open>
  The loads of a trace are its \<open>Read\<close> and \<open>Fetch\<close> entries, the writes are the paths
  of its \<open>Wrote\<close> entries, and the page starts are the slugs of its \<open>PageStart\<close> lines.
\<close>

fun is_load :: "event \<Rightarrow> bool" where
  "is_load (Read p) = True"
| "is_load (Fetch u) = True"
| "is_load (Console m) = False"
| "is_load (Wrote p) = False"

definition loads :: "event list \<Rightarrow> event list" where
  "loads t = filter is_load t"

fun written :: "event \<Rightarrow> string list" where
  "written (Wrote p) = [p]"
| "written (Read p) = []"
| "written (Fetch u) = []"
| "written (Console m) = []"

definition writes :: "event list \<Rightarrow> string list" where
  "writes t = concat (map written t)"

fun started :: "event \<Rightarrow> string list" where
  "started (Console (PageStart sl)) = [sl]"
| "started e = []"

definition page_starts :: "event list \<Rightarrow> string list" where
  "page_starts t = concat (map started t)"


text \<open>The resolved paths of the pages' background overrides.\<close>

definition overrides :: "'fs sys \<Rightarrow> PageConfig list \<Rightarrow> string list" where
  "overrides sys pages =
     map (\<lambda>page. join sys [PROJECT_ROOT sys, the (bgImage page)])
       (filter (\<lambda>page. truthy (bgImage page)) pages)"

subsection \<open>A small platform for examples\<close>

text \<open>
  A file system that is a list of paths with a file or a directory at each, on which
  either every write succeeds or every write raises (a read-only medium); a path module
  that joins with a slash; a Satori that raises on the accent colour \<^verbatim>\<open>oops\<close>.
\<close>

datatype node = File bytes | Dir

type_synonym simple_fs = "(string \<times> node) list"

definition simple_join :: "string list \<Rightarrow> string" where
  "simple_join parts = foldr (\<lambda>p acc. if acc = [] then p else p @ ''/'' @ acc) parts []"

definition simple_dirname :: "string \<Rightarrow> string" where
  "simple_dirname p = rev (tl (dropWhile (\<lambda>c. c \<noteq> CHR ''/'') (rev p)))"

definition simple_satori :: "vnode \<Rightarrow> nat \<Rightarrow> nat \<Rightarrow> font list \<Rightarrow> error + string" where
  "simple_satori tree w h fonts =
     (case divider tree of
        None \<Rightarrow> Inl (External ''no divider'')
      | Some d \<Rightarrow>
          if style_of ''background'' d
               = Some (Txt ''linear-gradient(90deg, oops 0%, oops 50%, oops 100%)'')
          then Inl (External ''invalid color'')
          else Inr ''<svg/>'')"

definition simple_sys :: "bool \<Rightarrow> (string \<Rightarrow> net_result) \<Rightarrow> simple_fs sys" where
  "simple_sys writable get =
     \<lparr>existsSync = (\<lambda>d p. map_of d p \<noteq> None),
      readFileSync = (\<lambda>d p. case map_of d p of
                        Some (File b) \<Rightarrow> Inr b
                      | Some Dir \<Rightarrow> Inl (External ''EISDIR'')
                      | None \<Rightarrow> Inl (External ''ENOENT'')),
      writeFileSync = (\<lambda>d p b. if writable then ((p, File b) # d, None)
                                else (d, Some (External ''EROFS''))),
      mkdirSync = (\<lambda>d p. if writable then ((p, Dir) # d, None)
                          else (d, Some (External ''EROFS''))),
      https_get = get,
      satori = simple_satori,
      resvg = (\<lambda>svg w. Inr [0x89, 0x50, 0x4E, 0x47]),
      join = simple_join,
      dirname = simple_dirname,
      PROJECT_ROOT = ''/site''\<rparr>"

text \<open>
  Servers. \<^verbatim>\<open>https.get\<close> refuses every URL that does not start with
  \<^verbatim>\<open>https://\<close>. Behind it: a server that cannot be reached, and one that answers every
  URL with a JPEG.
\<close>

definition https_only :: "(string \<Rightarrow> net_result) \<Rightarrow> string \<Rightarrow> net_result" where
  "https_only server url =
     (if take 8 url = ''https://'' then server url else GetThrows (External ''ERR_INVALID_URL''))"

definition offline :: "string \<Rightarrow> net_result" where
  "offline = https_only (\<lambda>url. RequestError (External ''ENOTFOUND''))"

definition serves_jpeg :: "string \<Rightarrow> net_result" where
  "serves_jpeg =
     https_only (\<lambda>url. Response \<lparr>statusCode = 200, location = None,
                                  body = [Data [0xFF, 0xD8], Data [0xFF], End]\<rparr>)"

text \<open>
  A server with two redirect hops before the file, a URL whose redirect carries an
  empty \<^verbatim>\<open>Location\<close> header, one whose redirect carries none, and one whose redirect
  names a relative URL.
\<close>

definition redirecting :: "string \<Rightarrow> net_result" where
  "redirecting =
     https_only (\<lambda>url.
       if url = ''https://a.example/bg'' then
         Response \<lparr>statusCode = 301, location = Some ''https://b.example/bg'', body = []\<rparr>
       else if url = ''https://b.example/bg'' then
         Response \<lparr>statusCode = 302, location = Some ''https://c.example/bg.jpg'', body = []\<rparr>
       else if url = ''https://c.example/bg.jpg'' then
         Response \<lparr>statusCode = 200, location = None,
                   body = [Data [0xFF, 0xD8], Data [0xFF], End]\<rparr>
       else if url = ''https://d.example/bg'' then
         Response \<lparr>statusCode = 301, location = Some [], body = []\<rparr>
       else if url = ''https://e.example/bg'' then
         Response \<lparr>statusCode = 302, location = None, body = []\<rparr>
       else if url = ''https://f.example/bg'' then
         Response \<lparr>statusCode = 302, location = Some ''/jpg/moved.jpg'', body = []\<rparr>
       else Response \<lparr>statusCode = 404, location = None, body = []\<rparr>)"

subsection \<open>The specification's MIME table\<close>

text \<open>
  Following the specification: the MIME type is derived from the file extension,
  \<^verbatim>\<open>jpg|jpeg\<close> to \<^verbatim>\<open>image/jpeg\<close>, \<^verbatim>\<open>png\<close> to \<^verbatim>\<open>image/png\<close>, \<^verbatim>\<open>webp\<close> to
  \<^verbatim>\<open>image/webp\<close>, default \<^verbatim>\<open>image/jpeg\<close>. The extension is what the script takes
  for it: the lower-cased path after its last dot.
\<close>

definition spec_mime :: "string \<Rightarrow> string" where
  "spec_mime ext =
     (if ext = ''jpg'' \<or> ext = ''jpeg'' then ''image/jpeg''
      else if ext = ''png'' then ''image/png''
      else if ext = ''webp'' then ''image/webp''
      else ''image/jpeg'')"

definition extension :: "string \<Rightarrow> string" where
  "extension imagePath = last (split CHR ''.'' (toLowerCase imagePath))"

subsection \<open>Example pages\<close>

text \<open>
  A page with one accent colour for all three stops, and the cache a run has when the
  download of the default background failed.
\<close>

definition example_page :: "string \<Rightarrow> string \<Rightarrow> PageConfig" where
  "example_page sl colour =
     \<lparr>slug = sl, title = ''Title'', subtitle = ''Subtitle'', description = ''Text'',
      badge = ''badge'', bgImage = None,
      accentColors = Some \<lparr>start = colour, middle = colour, end_color = colour\<rparr>\<rparr>"


text \<open>
  Pages with a background override, two of them sharing one image and one naming a
  file that does not exist, and a disk that holds the default background and the shared
  image.
\<close>

definition page_with_bg :: "string \<Rightarrow> string \<Rightarrow> PageConfig" where
  "page_with_bg sl path =
     \<lparr>slug = sl, title = ''Title'', subtitle = ''Subtitle'', description = ''Text'',
      badge = ''badge'', bgImage = Some path, accentColors = None\<rparr>"

definition shared_pages :: "PageConfig list" where
  "shared_pages =
     [page_with_bg ''a'' ''assets/bg/shared.png'', page_with_bg ''b'' ''assets/bg/shared.png'',
      page_with_bg ''c'' ''assets/bg/missing.jpg'', example_page ''d'' ''red'']"

definition shared_disk :: simple_fs where
  "shared_disk =
     [(''/site/assets/bg/og-background.jpg'', File [0xFF, 0xD8, 0xFF]),
      (''/site/assets/bg/shared.png'', File [0x89, 0x50, 0x4E, 0x47])]"

text \<open>A disk with the output directory and two of the three fonts.\<close>

definition two_fonts_disk :: simple_fs where
  "two_fonts_disk =
     [(''/site/public/og'', Dir),
      (''/site/assets/fonts/Montserrat-Bold.ttf'', File [0x00, 0x01]),
      (''/site/assets/fonts/Montserrat-Medium.ttf'', File [0x00, 0x01])]"

section \<open>Properties\<close>

subsection \<open>States, traces and the example platform\<close>

lemma trace_emit [simp]: "trace (emit e s) = trace s @ [e]"
  and disk_emit [simp]: "disk (emit e s) = disk s"
  by (simp_all add: emit_def)

lemma trace_say [simp]: "trace (say m s) = trace s @ [Console m]"
  and disk_say [simp]: "disk (say m s) = disk s"
  by (simp_all add: say_def)

lemma writes_append [simp]: "writes (t @ u) = writes t @ writes u"
  and writes_Nil [simp]: "writes [] = []"
  and writes_Cons [simp]: "writes (e # t) = written e @ writes t"
  by (simp_all add: writes_def)

lemma page_starts_append [simp]: "page_starts (t @ u) = page_starts t @ page_starts u"
  and page_starts_Nil [simp]: "page_starts [] = []"
  and page_starts_Cons [simp]: "page_starts (e # t) = started e @ page_starts t"
  by (simp_all add: page_starts_def)

lemma loads_append [simp]: "loads (t @ u) = loads t @ loads u"
  and loads_Nil [simp]: "loads [] = []"
  and loads_Cons [simp]: "loads (e # t) = (if is_load e then e # loads t else loads t)"
  by (simp_all add: loads_def)

lemma summary_lines_silent [simp]:
  "page_starts (map (\<lambda>file. Console (SummaryFile file)) files) = []"
  "writes (map (\<lambda>file. Console (SummaryFile file)) files) = []"
  by (induction files) simp_all

lemma serves_jpeg_download:
  "downloadFile serves_jpeg DEFAULT_BG_URL = Some (Resolved [0xFF, 0xD8, 0xFF])"
  unfolding downloadFile_def
  by (subst request.simps) (simp add: serves_jpeg_def https_only_def DEFAULT_BG_URL_def)

lemma offline_download:
  "downloadFile offline DEFAULT_BG_URL = Some (Rejected (External ''ENOTFOUND''))"
  unfolding downloadFile_def
  by (subst request.simps) (simp add: offline_def https_only_def DEFAULT_BG_URL_def)

lemma simple_sys_sel [simp]:
  "existsSync (simple_sys w g) = (\<lambda>d p. map_of d p \<noteq> None)"
  "https_get (simple_sys w g) = g"
  "join (simple_sys w g) = simple_join"
  "dirname (simple_sys w g) = simple_dirname"
  "PROJECT_ROOT (simple_sys w g) = ''/site''"
  "mkdirSync (simple_sys w g) = (\<lambda>d p. if w then ((p, Dir) # d, None)
                          else (d, Some (External ''EROFS'')))"
  "writeFileSync (simple_sys w g) = (\<lambda>d p b. if w then ((p, File b) # d, None)
                                else (d, Some (External ''EROFS'')))"
  "readFileSync (simple_sys w g) = (\<lambda>d p. case map_of d p of
                        Some (File b) \<Rightarrow> Inr b
                      | Some Dir \<Rightarrow> Inl (External ''EISDIR'')
                      | None \<Rightarrow> Inl (External ''ENOENT''))"
  by (simp_all add: simple_sys_def)

subsection \<open>Downloading\<close>

lemma request_redirect:
  assumes "get url = Response r" "statusCode r = 301 \<or> statusCode r = 302"
    "location r = Some u" "u \<noteq> []"
  shows "request get in_callback url = request get True u"
  using assms by (subst request.simps) (simp add: truthy_def)


text \<open>
  Where \<^verbatim>\<open>https.get\<close> does not refuse the URL, the request does the same in the
  callback as at the start of the download.
\<close>

lemma request_accepted:
  assumes "\<And>e. get url \<noteq> GetThrows e"
  shows "request get True url = downloadFile get url"
  using assms unfolding downloadFile_def
  by (subst request.simps, subst (2) request.simps) (simp split: net_result.splits)

text \<open>
  A hop that \<^verbatim>\<open>https.get\<close> refuses ends the process; refused at the start, the same
  URL only rejects the promise.
\<close>

lemma refused_hop_crashes:
  assumes "get url = GetThrows e"
  shows "request get True url = Some (Crashed e)" "downloadFile get url = Some (Rejected e)"
  using assms unfolding downloadFile_def by (subst request.simps, simp)+



lemma on_events_error:
  "on_events (map Data chunks @ StreamError e # rest) acc = Some (Rejected e)"
  by (induction chunks arbitrary: acc) simp_all






text \<open>
  A redirect to a relative URL: \<^verbatim>\<open>https.get\<close> refuses it in the callback and the
  process dies.
\<close>

lemma relative_redirect_crashes:
  "downloadFile redirecting ''https://f.example/bg''
   = Some (Crashed (External ''ERR_INVALID_URL''))"
proof -
  have "downloadFile redirecting ''https://f.example/bg''
        = request redirecting True ''/jpg/moved.jpg''"
    unfolding downloadFile_def
    by (rule request_redirect [where r = "\<lparr>statusCode = 302,
          location = Some ''/jpg/moved.jpg'', body = []\<rparr>"])
       (simp_all add: redirecting_def https_only_def)
  also have "\<dots> = Some (Crashed (External ''ERR_INVALID_URL''))"
    by (rule refused_hop_crashes) (simp add: redirecting_def https_only_def)
  finally show ?thesis .
qed

subsection \<open>Loading a local image\<close>

lemma split_nonempty: "split sep s \<noteq> []"
  by (induction s) (auto split: list.splits)

text \<open>
  On every extension that is not the name of a property of \<^verbatim>\<open>Object.prototype\<close> the
  script agrees with the specification's table.
\<close>

lemma loadImageAsBase64_own_keys:
  assumes "readFileSync sys (disk s) imagePath = Inr buffer"
    and "extension imagePath \<notin> set (''constructor'' # ''__proto__'' # object_prototype_functions)"
  shows "fst (loadImageAsBase64 sys imagePath s)
         = Inr (''data:'' @ spec_mime (extension imagePath) @ '';base64,'' @ toBase64 buffer)"
proof -
  let ?ext = "pop (split CHR ''.'' (toLowerCase imagePath))"
  have e: "?ext = Some (extension imagePath)"
    by (simp add: pop_def extension_def split_nonempty)
  have m: "interpolate (or_else (mimeTypes (if truthy ?ext then the ?ext else ''jpg''))
                          (Str ''image/jpeg''))
           = spec_mime (extension imagePath)"
    using assms(2) unfolding e
    by (auto simp: truthy_def mimeTypes_def or_else_def spec_mime_def)
  show ?thesis using assms(1) m by (simp add: loadImageAsBase64_def Let_def)
qed

text \<open>
  C6 fails on the code: for the readable file \<^verbatim>\<open>/site/assets/bg/photo.constructor\<close>
  the extension is \<^verbatim>\<open>constructor\<close>, which the claim maps to \<^verbatim>\<open>image/jpeg\<close>, but
  \<^verbatim>\<open>mimeTypes['constructor']\<close> is the inherited function \<^verbatim>\<open>Object\<close>, which is
  truthy, so the default is not taken and the function's source text is put where the
  MIME type belongs.
\<close>

theorem inherited_key_is_not_jpeg:
  "fst (loadImageAsBase64 (simple_sys True offline) ''/site/assets/bg/photo.constructor''
         \<lparr>disk = [(''/site/assets/bg/photo.constructor'', File [0x89, 0x50, 0x4E, 0x47])],
          trace = []\<rparr>)
     = Inr ''data:function Object() { [native code] };base64,iVBORw==''
   \<and> extension ''/site/assets/bg/photo.constructor'' = ''constructor''
   \<and> spec_mime ''constructor'' = ''image/jpeg''"
  by (simp add: loadImageAsBase64_def simple_sys_def Let_def toLowerCase_def lower_char_def
      pop_def truthy_def mimeTypes_def or_else_def sextet_def base64_alphabet_def
      extension_def spec_mime_def)

subsection \<open>The template\<close>

text \<open>
  The tree is built from the four texts, the accent colours and the background data
  URI; the slug and the background path of the page do not enter it.
\<close>

lemma createOGTemplate_reads:
  assumes "title p = title q" "subtitle p = subtitle q" "description p = description q"
    "badge p = badge q" "accentColors p = accentColors q"
  shows "createOGTemplate p bg = createOGTemplate q bg"
  using assms by (simp add: createOGTemplate_def)

text \<open>
  C8: the divider of every tree has the background
  \<^verbatim>\<open>linear-gradient(90deg, {start} 0%, {middle} 50%, {end} 100%)\<close>, where the three
  colours are the page's \<^verbatim>\<open>accentColors\<close> when the page has them and the triple
  \<^verbatim>\<open>#e26b34\<close>, \<^verbatim>\<open>#336851\<close>, \<^verbatim>\<open>#1b3c65\<close> otherwise.
\<close>

theorem divider_gradient:
  "\<exists>d. divider (createOGTemplate page bg) = Some d
     \<and> style_of ''background'' d =
         Some (Txt (''linear-gradient(90deg, ''
            @ start (case accentColors page of Some c \<Rightarrow> c
                     | None \<Rightarrow> \<lparr>start = ''#e26b34'', middle = ''#336851'', end_color = ''#1b3c65''\<rparr>)
            @ '' 0%, ''
            @ middle (case accentColors page of Some c \<Rightarrow> c
                     | None \<Rightarrow> \<lparr>start = ''#e26b34'', middle = ''#336851'', end_color = ''#1b3c65''\<rparr>)
            @ '' 50%, ''
            @ end_color (case accentColors page of Some c \<Rightarrow> c
                     | None \<Rightarrow> \<lparr>start = ''#e26b34'', middle = ''#336851'', end_color = ''#1b3c65''\<rparr>)
            @ '' 100%)''))"
  by (simp add: createOGTemplate_def divider_def child_def style_of_def default_colors_def Let_def
      split: option.split)

text \<open>The page \<^verbatim>\<open>docs\<close> overrides the colours, the page \<^verbatim>\<open>home\<close> does not.\<close>

theorem divider_gradient_witness:
  "(\<exists>d. divider (createOGTemplate (PAGES ! 1) placeholder) = Some d
      \<and> style_of ''background'' d
          = Some (Txt ''linear-gradient(90deg, #3b82f6 0%, #8b5cf6 50%, #ec4899 100%)''))
   \<and> (\<exists>d. divider (createOGTemplate (PAGES ! 0) placeholder) = Some d
      \<and> style_of ''background'' d
          = Some (Txt ''linear-gradient(90deg, #e26b34 0%, #336851 50%, #1b3c65 100%)''))"
  using divider_gradient [of "PAGES ! 1" placeholder] divider_gradient [of "PAGES ! 0" placeholder]
  by (simp add: PAGES_def)

subsection \<open>Generating the images\<close>










subsection \<open>The default background\<close>

text \<open>
  A rejected download is recovered: the placeholder is cached and the stage returns.
\<close>

lemma download_failure_recovered:
  assumes "\<not> existsSync sys (disk s) (DEFAULT_BG_PATH sys)"
    and "downloadFile (https_get sys) DEFAULT_BG_URL = Some (Rejected e)"
  shows "loadDefaultBackground sys s
         = Some (Returns [DEFAULT_BG_PATH sys \<mapsto> placeholder]
             (say GradientFallback (say DownloadFailed
                (emit (Fetch DEFAULT_BG_URL) (say DownloadingDefault s)))))"
  using assms by (simp add: loadDefaultBackground_def tryDownload_def)

text \<open>
  When the download resolves and the bytes are saved, the cached entry is the body of
  the response, labelled \<^verbatim>\<open>image/jpeg\<close> whatever the URL and the bytes are.
\<close>

lemma download_saved:
  assumes "\<not> existsSync sys (disk s) (DEFAULT_BG_PATH sys)"
    and "downloadFile (https_get sys) DEFAULT_BG_URL = Some (Resolved buffer)"
    and "loadDefaultBackground sys s = Some (Returns bgCache s')"
    and "Console SavedLocally \<in> set (trace s')"
    and "Console SavedLocally \<notin> set (trace s)"
  shows "bgCache (DEFAULT_BG_PATH sys) = Some (''data:image/jpeg;base64,'' @ toBase64 buffer)"
  using assms
  by (auto simp: loadDefaultBackground_def tryDownload_def Let_def
      split: if_splits prod.splits option.splits)

text \<open>
  C4 fails on the code where the download succeeds and saving the bytes raises. On a
  read-only disk without the default background, the server \<open>serves_jpeg\<close> answers 200
  and the download resolves with the body; \<^verbatim>\<open>mkdirSync\<close> then raises inside the same
  \<^verbatim>\<open>try\<close> block, and the \<^verbatim>\<open>catch\<close> block replaces the cached body by the
  placeholder and reports a failed download.
\<close>

theorem save_failure_discards_download:
  "\<not> existsSync (simple_sys False serves_jpeg) [] (DEFAULT_BG_PATH (simple_sys False serves_jpeg))
   \<and> downloadFile (https_get (simple_sys False serves_jpeg)) DEFAULT_BG_URL
       = Some (Resolved [0xFF, 0xD8, 0xFF])
   \<and> (case loadDefaultBackground (simple_sys False serves_jpeg) \<lparr>disk = [], trace = []\<rparr> of
         Some (Returns bgCache s) \<Rightarrow>
           bgCache (DEFAULT_BG_PATH (simple_sys False serves_jpeg)) = Some placeholder
           \<and> trace s = [Console DownloadingDefault, Fetch DEFAULT_BG_URL,
                         Console DownloadFailed, Console GradientFallback]
       | _ \<Rightarrow> False)"
  by (simp add: loadDefaultBackground_def tryDownload_def serves_jpeg_download Let_def
      say_def emit_def)

text \<open>
  C9 fails on the code at the same input, by the same defect: the default background
  is absent locally and is fetched, yet the data URI left in the cache is not the
  fetched bytes labelled \<^verbatim>\<open>image/jpeg\<close> but the placeholder, labelled
  \<^verbatim>\<open>image/png\<close>.
\<close>

theorem fetched_image_cached_as_png_placeholder:
  "case loadDefaultBackground (simple_sys False serves_jpeg) \<lparr>disk = [], trace = []\<rparr> of
     Some (Returns bgCache s) \<Rightarrow>
       Fetch DEFAULT_BG_URL \<in> set (trace s)
       \<and> bgCache (DEFAULT_BG_PATH (simple_sys False serves_jpeg))
           \<noteq> Some (''data:image/jpeg;base64,'' @ toBase64 [0xFF, 0xD8, 0xFF])
       \<and> map_option (take 15) (bgCache (DEFAULT_BG_PATH (simple_sys False serves_jpeg)))
           = Some ''data:image/png;''
   | _ \<Rightarrow> False"
  by (simp add: loadDefaultBackground_def tryDownload_def serves_jpeg_download Let_def
      say_def emit_def placeholder_def)

subsection \<open>The background cache\<close>

lemma loadImageAsBase64_state:
  "snd (loadImageAsBase64 sys p s) = emit (Read p) s"
  by (simp add: loadImageAsBase64_def Let_def split: sum.splits)

lemma overrides_Cons:
  "overrides sys (page # rest)
   = (if truthy (bgImage page) then join sys [PROJECT_ROOT sys, the (bgImage page)] # overrides sys rest
      else overrides sys rest)"
  by (simp add: overrides_def)

lemma loadPageBackgrounds_inv:
  assumes "loadPageBackgrounds sys pages c s = Returns c' s'"
  shows "\<exists>new. loads (trace s') = loads (trace s) @ map Read new
           \<and> distinct new
           \<and> set new = {p \<in> set (overrides sys pages). existsSync sys (disk s) p} - dom c
           \<and> dom c' = dom c \<union> set new
           \<and> c \<subseteq>\<^sub>m c'
           \<and> disk s' = disk s
           \<and> writes (trace s') = writes (trace s)
           \<and> page_starts (trace s') = page_starts (trace s)"
  using assms
proof (induction pages arbitrary: c s)
  case Nil
  then show ?case by (intro exI [of _ "[]"]) (simp add: overrides_def)
next
  case (Cons page rest)
  let ?full = "join sys [PROJECT_ROOT sys, the (bgImage page)]"
  consider (none) "\<not> truthy (bgImage page)"
    | (cached) "truthy (bgImage page)" "c ?full \<noteq> None"
    | (missing) "truthy (bgImage page)" "c ?full = None" "\<not> existsSync sys (disk s) ?full"
    | (load) "truthy (bgImage page)" "c ?full = None" "existsSync sys (disk s) ?full"
    by blast
  then show ?case
  proof cases
    case none
    with Cons.prems have "loadPageBackgrounds sys rest c s = Returns c' s'" by simp
    from Cons.IH [OF this] none show ?thesis by (simp add: overrides_Cons)
  next
    case cached
    with Cons.prems have "loadPageBackgrounds sys rest c s = Returns c' s'" by (simp add: Let_def)
    from Cons.IH [OF this] obtain new where new: "loads (trace s') = loads (trace s) @ map Read new"
      "distinct new" "set new = {p \<in> set (overrides sys rest). existsSync sys (disk s) p} - dom c"
      "dom c' = dom c \<union> set new" "c \<subseteq>\<^sub>m c'" "disk s' = disk s"
      "writes (trace s') = writes (trace s)" "page_starts (trace s') = page_starts (trace s)"
      by blast
    have "set new = {p \<in> set (overrides sys (page # rest)). existsSync sys (disk s) p} - dom c"
      using new(3) cached by (auto simp: overrides_Cons)
    with new show ?thesis by blast
  next
    case missing
    let ?s1 = "say FallingBack (say (BackgroundNotFound (slug page) (the (bgImage page))) s)"
    from missing Cons.prems have "loadPageBackgrounds sys rest c ?s1 = Returns c' s'"
      by (simp add: Let_def)
    from Cons.IH [OF this] obtain new where new: "loads (trace s') = loads (trace ?s1) @ map Read new"
      "distinct new" "set new = {p \<in> set (overrides sys rest). existsSync sys (disk ?s1) p} - dom c"
      "dom c' = dom c \<union> set new" "c \<subseteq>\<^sub>m c'" "disk s' = disk ?s1"
      "writes (trace s') = writes (trace ?s1)" "page_starts (trace s') = page_starts (trace ?s1)"
      by blast
    have "set new = {p \<in> set (overrides sys (page # rest)). existsSync sys (disk s) p} - dom c"
      using new(3) missing by (auto simp: overrides_Cons)
    with new show ?thesis by (intro exI [of _ new]) simp
  next
    case load
    let ?s0 = "say (LoadingBackground (slug page)) s"
    let ?s1 = "emit (Read ?full) ?s0"
    obtain r where r: "loadImageAsBase64 sys ?full ?s0 = (r, ?s1)"
      using loadImageAsBase64_state [of sys ?full ?s0]
      by (cases "loadImageAsBase64 sys ?full ?s0") simp
    with load Cons.prems obtain dataUrl where d: "r = Inr dataUrl"
      by (cases r) (simp_all add: Let_def)
    let ?c1 = "c(?full \<mapsto> dataUrl)"
    from load Cons.prems r d have "loadPageBackgrounds sys rest ?c1 ?s1 = Returns c' s'"
      by (simp add: Let_def)
    from Cons.IH [OF this] obtain new where new: "loads (trace s') = loads (trace ?s1) @ map Read new"
      "distinct new" "set new = {p \<in> set (overrides sys rest). existsSync sys (disk ?s1) p} - dom ?c1"
      "dom c' = dom ?c1 \<union> set new" "?c1 \<subseteq>\<^sub>m c'" "disk s' = disk ?s1"
      "writes (trace s') = writes (trace ?s1)" "page_starts (trace s') = page_starts (trace ?s1)"
      by blast
    have 1: "loads (trace s') = loads (trace s) @ map Read (?full # new)"
      using new(1) by simp
    have 2: "distinct (?full # new)" using new(2,3) by auto
    have 3: "set (?full # new) = {p \<in> set (overrides sys (page # rest)). existsSync sys (disk s) p} - dom c"
      using new(3) load by (auto simp: overrides_Cons)
    have 4: "dom c' = dom c \<union> set (?full # new)" using new(4) by auto
    have 5: "c \<subseteq>\<^sub>m c'"
    proof -
      have "c \<subseteq>\<^sub>m ?c1" using load(2) by (auto simp: map_le_def)
      then show ?thesis using new(5) by (rule map_le_trans)
    qed
    from 1 2 3 4 5 new(6,7,8) show ?thesis by (intro exI [of _ "?full # new"]) simp
  qed
qed


lemma loadImageAsBase64_disk:
  "disk s = disk t \<Longrightarrow> fst (loadImageAsBase64 sys p s) = fst (loadImageAsBase64 sys p t)"
  by (simp add: loadImageAsBase64_def Let_def split: sum.splits)

text \<open>
  However the loop over the pages ends, it has read distinct paths that were not cached
  before, and it has written nothing and started no page.
\<close>

lemma loadPageBackgrounds_any:
  "\<exists>new. loads (trace (final (loadPageBackgrounds sys pages c s)))
             = loads (trace s) @ map Read new
         \<and> distinct new \<and> set new \<inter> dom c = {}
         \<and> disk (final (loadPageBackgrounds sys pages c s)) = disk s
         \<and> writes (trace (final (loadPageBackgrounds sys pages c s))) = writes (trace s)
         \<and> page_starts (trace (final (loadPageBackgrounds sys pages c s)))
             = page_starts (trace s)"
proof (induction pages arbitrary: c s)
  case Nil
  show ?case by (intro exI [of _ "[]"]) simp
next
  case (Cons page rest)
  let ?full = "join sys [PROJECT_ROOT sys, the (bgImage page)]"
  consider (none) "\<not> truthy (bgImage page)"
    | (cached) "truthy (bgImage page)" "c ?full \<noteq> None"
    | (missing) "truthy (bgImage page)" "c ?full = None" "\<not> existsSync sys (disk s) ?full"
    | (load) "truthy (bgImage page)" "c ?full = None" "existsSync sys (disk s) ?full"
    by blast
  then show ?case
  proof cases
    case none
    then have "loadPageBackgrounds sys (page # rest) c s = loadPageBackgrounds sys rest c s"
      by simp
    with Cons.IH [of c s] show ?thesis by simp
  next
    case cached
    then have "loadPageBackgrounds sys (page # rest) c s = loadPageBackgrounds sys rest c s"
      by (auto simp: Let_def)
    with Cons.IH [of c s] show ?thesis by simp
  next
    case missing
    let ?s1 = "say FallingBack (say (BackgroundNotFound (slug page) (the (bgImage page))) s)"
    from missing have "loadPageBackgrounds sys (page # rest) c s
                       = loadPageBackgrounds sys rest c ?s1"
      by (simp add: Let_def)
    with Cons.IH [of c ?s1] show ?thesis by simp
  next
    case load
    let ?s0 = "say (LoadingBackground (slug page)) s"
    let ?s1 = "emit (Read ?full) ?s0"
    obtain r where r: "loadImageAsBase64 sys ?full ?s0 = (r, ?s1)"
      using loadImageAsBase64_state [of sys ?full ?s0]
      by (cases "loadImageAsBase64 sys ?full ?s0") simp
    show ?thesis
    proof (cases r)
      case (Inl e)
      with load r have "loadPageBackgrounds sys (page # rest) c s = Throws e ?s1"
        by (simp add: Let_def)
      then show ?thesis using load(2) by (intro exI [of _ "[?full]"]) (simp add: domIff)
    next
      case (Inr dataUrl)
      let ?c1 = "c(?full \<mapsto> dataUrl)"
      from load r Inr have eq: "loadPageBackgrounds sys (page # rest) c s
                                = loadPageBackgrounds sys rest ?c1 ?s1"
        by (simp add: Let_def)
      from Cons.IH [of ?c1 ?s1] obtain new where new:
        "loads (trace (final (loadPageBackgrounds sys rest ?c1 ?s1)))
           = loads (trace ?s1) @ map Read new"
        "distinct new" "set new \<inter> dom ?c1 = {}"
        "disk (final (loadPageBackgrounds sys rest ?c1 ?s1)) = disk ?s1"
        "writes (trace (final (loadPageBackgrounds sys rest ?c1 ?s1))) = writes (trace ?s1)"
        "page_starts (trace (final (loadPageBackgrounds sys rest ?c1 ?s1)))
           = page_starts (trace ?s1)"
        by blast
      have "distinct (?full # new)" "set (?full # new) \<inter> dom c = {}"
        using new(2,3) load(2) by (auto simp: domIff)
      with new(1,4,5,6) show ?thesis
        unfolding eq by (intro exI [of _ "?full # new"]) simp
    qed
  qed
qed

text \<open>The loop over a list of pages is the loop over its first part, then over the rest.\<close>

lemma loadPageBackgrounds_append:
  "loadPageBackgrounds sys (xs @ ys) c s
   = (case loadPageBackgrounds sys xs c s of
        Returns c1 s1 \<Rightarrow> loadPageBackgrounds sys ys c1 s1
      | Throws e s1 \<Rightarrow> Throws e s1
      | Exits n s1 \<Rightarrow> Exits n s1)"
  by (induction xs arbitrary: c s) (simp_all add: Let_def split: prod.splits sum.splits)

text \<open>An entry the loop adds is the data URI of the file at its path.\<close>

lemma loadPageBackgrounds_entries:
  assumes "loadPageBackgrounds sys pages c s = Returns c' s'"
    and "p \<in> dom c'" and "p \<notin> dom c"
  shows "fst (loadImageAsBase64 sys p s) = Inr (the (c' p))"
  using assms
proof (induction pages arbitrary: c s)
  case Nil
  then show ?case by simp
next
  case (Cons page rest)
  let ?full = "join sys [PROJECT_ROOT sys, the (bgImage page)]"
  consider (none) "\<not> truthy (bgImage page)"
    | (cached) "truthy (bgImage page)" "c ?full \<noteq> None"
    | (missing) "truthy (bgImage page)" "c ?full = None" "\<not> existsSync sys (disk s) ?full"
    | (load) "truthy (bgImage page)" "c ?full = None" "existsSync sys (disk s) ?full"
    by blast
  then show ?case
  proof cases
    case none
    with Cons.prems have "loadPageBackgrounds sys rest c s = Returns c' s'" by simp
    from Cons.IH [OF this Cons.prems(2,3)] show ?thesis .
  next
    case cached
    with Cons.prems have "loadPageBackgrounds sys rest c s = Returns c' s'" by (simp add: Let_def)
    from Cons.IH [OF this Cons.prems(2,3)] show ?thesis .
  next
    case missing
    let ?s1 = "say FallingBack (say (BackgroundNotFound (slug page) (the (bgImage page))) s)"
    from missing Cons.prems have "loadPageBackgrounds sys rest c ?s1 = Returns c' s'"
      by (simp add: Let_def)
    from Cons.IH [OF this Cons.prems(2,3)]
    have "fst (loadImageAsBase64 sys p ?s1) = Inr (the (c' p))" .
    moreover have "fst (loadImageAsBase64 sys p ?s1) = fst (loadImageAsBase64 sys p s)"
      by (rule loadImageAsBase64_disk) simp
    ultimately show ?thesis by simp
  next
    case load
    let ?s0 = "say (LoadingBackground (slug page)) s"
    let ?s1 = "emit (Read ?full) ?s0"
    obtain r where r: "loadImageAsBase64 sys ?full ?s0 = (r, ?s1)"
      using loadImageAsBase64_state [of sys ?full ?s0]
      by (cases "loadImageAsBase64 sys ?full ?s0") simp
    with load Cons.prems obtain dataUrl where d: "r = Inr dataUrl"
      by (cases r) (simp_all add: Let_def)
    let ?c1 = "c(?full \<mapsto> dataUrl)"
    from load Cons.prems r d have run: "loadPageBackgrounds sys rest ?c1 ?s1 = Returns c' s'"
      by (simp add: Let_def)
    have same: "fst (loadImageAsBase64 sys q ?s0) = fst (loadImageAsBase64 sys q s)"
               "fst (loadImageAsBase64 sys q ?s1) = fst (loadImageAsBase64 sys q s)" for q
      by (rule loadImageAsBase64_disk, simp)+
    show ?thesis
    proof (cases "p = ?full")
      case True
      from loadPageBackgrounds_inv [OF run] have "?c1 \<subseteq>\<^sub>m c'" by blast
      then have "c' ?full = Some dataUrl" by (auto simp: map_le_def)
      with True r d same(1) [of ?full] show ?thesis by simp
    next
      case False
      with Cons.prems(3) have "p \<notin> dom ?c1" by simp
      from Cons.IH [OF run Cons.prems(2) this] same(2) [of p] show ?thesis by simp
    qed
  qed
qed

text \<open>
  However the default-background stage ends, it has made exactly one load: a read of
  the default path when that exists, one fetch otherwise. It can only have written the
  default background.
\<close>

lemma loadDefaultBackground_any:
  assumes "loadDefaultBackground sys s = Some r"
  shows "loads (trace (final r))
           = loads (trace s) @ [if existsSync sys (disk s) (DEFAULT_BG_PATH sys)
                                then Read (DEFAULT_BG_PATH sys) else Fetch DEFAULT_BG_URL]
       \<and> set (writes (trace (final r))) \<subseteq> set (writes (trace s)) \<union> {DEFAULT_BG_PATH sys}
       \<and> page_starts (trace (final r)) = page_starts (trace s)
       \<and> (\<forall>c s'. r = Returns c s' \<longrightarrow> dom c = {DEFAULT_BG_PATH sys})"
proof (cases "existsSync sys (disk s) (DEFAULT_BG_PATH sys)")
  case True
  let ?s0 = "say LoadingDefault s"
  obtain x where x: "loadImageAsBase64 sys (DEFAULT_BG_PATH sys) ?s0
                     = (x, emit (Read (DEFAULT_BG_PATH sys)) ?s0)"
    using loadImageAsBase64_state [of sys "DEFAULT_BG_PATH sys" ?s0]
    by (cases "loadImageAsBase64 sys (DEFAULT_BG_PATH sys) ?s0") simp
  with True assms show ?thesis
    by (cases x) (auto simp: loadDefaultBackground_def split: if_splits)
next
  case False
  with assms show ?thesis
    by (auto simp: loadDefaultBackground_def tryDownload_def Let_def
        split: option.splits outcome.splits prod.splits if_splits)
qed

lemma loadDefaultBackground_inv:
  assumes "loadDefaultBackground sys s = Some (Returns c s')"
  shows "dom c = {DEFAULT_BG_PATH sys}
       \<and> (loads (trace s') = loads (trace s) @ [Read (DEFAULT_BG_PATH sys)]
           \<or> loads (trace s') = loads (trace s) @ [Fetch DEFAULT_BG_URL])
       \<and> set (writes (trace s')) \<subseteq> set (writes (trace s)) \<union> {DEFAULT_BG_PATH sys}
       \<and> page_starts (trace s') = page_starts (trace s)"
  using loadDefaultBackground_any [OF assms] by auto

text \<open>
  C5, as stated, fails: with no default background on disk and the server out of
  reach, the run makes one fetch, while no resolved path exists, neither at the start
  nor at the end of the stage.
\<close>

theorem failed_fetch_counts_as_load:
  "\<not> existsSync (simple_sys True offline) [] (DEFAULT_BG_PATH (simple_sys True offline))
   \<and> overrides (simple_sys True offline) PAGES = []
   \<and> (case loadBackgrounds (simple_sys True offline) PAGES \<lparr>disk = [], trace = []\<rparr> of
         Some (Returns bgCache s) \<Rightarrow>
           loads (trace s) = [Fetch DEFAULT_BG_URL]
           \<and> filter (existsSync (simple_sys True offline) (disk s))
                 (DEFAULT_BG_PATH (simple_sys True offline) # overrides (simple_sys True offline) PAGES)
               = []
       | _ \<Rightarrow> False)"
  by (simp add: loadBackgrounds_def loadDefaultBackground_def tryDownload_def offline_download
      PAGES_def overrides_def truthy_def say_def emit_def)

text \<open>
  C5, amended. In every run of the background stage that ends, however it ends, no
  path is read or fetched twice. When the stage completes, the cache is keyed by resolved
  path; its keys are the default path and every override path that exists; the number of
  reads and fetches equals the number of these keys: the first load is a read of the
  default path when that exists locally and a fetch otherwise, the others are one read
  for each distinct existing override path. Every override entry is the data URI of the
  file at its path; the cache only grows along the pages, so an entry, once cached, is
  kept unchanged by every later reference; and the generation stage takes the
  background of a page with a cached override from the cache.
\<close>

theorem backgrounds_loaded_once:
  assumes "loads (trace s) = []"
  shows
   "(\<forall>r. loadBackgrounds sys pages s = Some r \<longrightarrow> distinct (loads (trace (final r))))
    \<and> (\<forall>bgCache s'. loadBackgrounds sys pages s = Some (Returns bgCache s') \<longrightarrow>
          length (loads (trace s')) = card (dom bgCache)
        \<and> dom bgCache = insert (DEFAULT_BG_PATH sys)
                           {p \<in> set (overrides sys pages). existsSync sys (disk s') p}
        \<and> (\<exists>new. loads (trace s')
                     = (if existsSync sys (disk s) (DEFAULT_BG_PATH sys)
                        then Read (DEFAULT_BG_PATH sys) else Fetch DEFAULT_BG_URL)
                       # map Read new
                 \<and> distinct new
                 \<and> set new = {p \<in> set (overrides sys pages). existsSync sys (disk s') p}
                             - {DEFAULT_BG_PATH sys})
        \<and> (\<forall>p \<in> dom bgCache - {DEFAULT_BG_PATH sys}.
               fst (loadImageAsBase64 sys p s') = Inr (the (bgCache p)))
        \<and> (\<forall>before after. pages = before @ after \<longrightarrow>
               (\<exists>first s0 c1 s1. loadDefaultBackground sys s = Some (Returns first s0)
                   \<and> loadPageBackgrounds sys before first s0 = Returns c1 s1
                   \<and> first \<subseteq>\<^sub>m c1 \<and> c1 \<subseteq>\<^sub>m bgCache))
        \<and> (\<forall>page. truthy (bgImage page)
                  \<and> truthy (bgCache (join sys [PROJECT_ROOT sys, the (bgImage page)]))
              \<longrightarrow> Some (effectiveBackground sys bgCache page)
                    = bgCache (join sys [PROJECT_ROOT sys, the (bgImage page)])))"
proof (intro conjI allI impI)
  fix r
  assume run: "loadBackgrounds sys pages s = Some r"
  let ?ev = "if existsSync sys (disk s) (DEFAULT_BG_PATH sys)
             then Read (DEFAULT_BG_PATH sys) else Fetch DEFAULT_BG_URL"
  from run obtain r0 where d: "loadDefaultBackground sys s = Some r0"
    by (auto simp: loadBackgrounds_def split: option.splits)
  from loadDefaultBackground_any [OF d] assms
  have first: "loads (trace (final r0)) = [?ev]"
    and dom0: "\<And>c s'. r0 = Returns c s' \<Longrightarrow> dom c = {DEFAULT_BG_PATH sys}"
    by simp_all
  show "distinct (loads (trace (final r)))"
  proof (cases r0)
    case (Returns c0 s0)
    with run d have r: "r = loadPageBackgrounds sys pages c0 s0"
      by (simp add: loadBackgrounds_def)
    from loadPageBackgrounds_any [of sys pages c0 s0] obtain new where
      new: "loads (trace (final r)) = loads (trace s0) @ map Read new" "distinct new"
        "set new \<inter> dom c0 = {}"
      unfolding r by blast
    from new(3) dom0 [OF Returns] have "DEFAULT_BG_PATH sys \<notin> set new" by simp
    with new(1,2) first Returns show ?thesis
      by (auto simp: distinct_map inj_on_def)
  next
    case (Throws e s0)
    with run d have "r = r0" by (simp add: loadBackgrounds_def)
    with first show ?thesis by simp
  next
    case (Exits n s0)
    with run d have "r = r0" by (simp add: loadBackgrounds_def)
    with first show ?thesis by simp
  qed
next
  fix bgCache s'
  assume run: "loadBackgrounds sys pages s = Some (Returns bgCache s')"
  let ?D = "DEFAULT_BG_PATH sys"
  let ?ev = "if existsSync sys (disk s) ?D then Read ?D else Fetch DEFAULT_BG_URL"
  let ?existing = "{p \<in> set (overrides sys pages). existsSync sys (disk s') p}"
  from run obtain c0 s0 where d: "loadDefaultBackground sys s = Some (Returns c0 s0)"
    and l: "loadPageBackgrounds sys pages c0 s0 = Returns bgCache s'"
    by (auto simp: loadBackgrounds_def split: option.splits result.splits)
  from loadDefaultBackground_any [OF d] assms
  have ev: "loads (trace s0) = [?ev]" and c0: "dom c0 = {?D}"
    by simp_all
  from loadPageBackgrounds_inv [OF l] obtain new where
    new: "loads (trace s') = loads (trace s0) @ map Read new" "distinct new"
      "set new = {p \<in> set (overrides sys pages). existsSync sys (disk s0) p} - dom c0"
      "dom bgCache = dom c0 \<union> set new" "c0 \<subseteq>\<^sub>m bgCache" "disk s' = disk s0"
    by blast
  have notin: "?D \<notin> set new" using new(3) c0 by simp
  have "card (dom bgCache) = Suc (length new)"
    using new(2,4) c0 notin by (simp add: distinct_card)
  then show "length (loads (trace s')) = card (dom bgCache)"
    using new(1) ev by simp
  show "dom bgCache = insert ?D ?existing"
    using new(3,4,6) c0 by auto
  have "loads (trace s') = ?ev # map Read new" using new(1) ev by simp
  moreover have "set new = ?existing - {?D}" using new(3,6) c0 by simp
  ultimately show "\<exists>new. loads (trace s') = ?ev # map Read new \<and> distinct new
                     \<and> set new = ?existing - {?D}"
    using new(2) by blast
  show "\<forall>p \<in> dom bgCache - {?D}. fst (loadImageAsBase64 sys p s') = Inr (the (bgCache p))"
  proof
    fix p
    assume p: "p \<in> dom bgCache - {?D}"
    then have "p \<in> dom bgCache" "p \<notin> dom c0" using c0 by simp_all
    from loadPageBackgrounds_entries [OF l this]
    have "fst (loadImageAsBase64 sys p s0) = Inr (the (bgCache p))" .
    moreover have "fst (loadImageAsBase64 sys p s') = fst (loadImageAsBase64 sys p s0)"
      by (rule loadImageAsBase64_disk) (rule new(6))
    ultimately show "fst (loadImageAsBase64 sys p s') = Inr (the (bgCache p))" by simp
  qed
  show "\<exists>first s0 c1 s1. loadDefaultBackground sys s = Some (Returns first s0)
           \<and> loadPageBackgrounds sys before first s0 = Returns c1 s1
           \<and> first \<subseteq>\<^sub>m c1 \<and> c1 \<subseteq>\<^sub>m bgCache"
    if split: "pages = before @ after" for before after
  proof -
    from l split obtain c1 s1 where
      b: "loadPageBackgrounds sys before c0 s0 = Returns c1 s1"
      and a: "loadPageBackgrounds sys after c1 s1 = Returns bgCache s'"
      by (auto simp: loadPageBackgrounds_append split: result.splits)
    from loadPageBackgrounds_inv [OF b] have "c0 \<subseteq>\<^sub>m c1" by blast
    moreover from loadPageBackgrounds_inv [OF a] have "c1 \<subseteq>\<^sub>m bgCache" by blast
    ultimately show ?thesis using d b by blast
  qed
  show "Some (effectiveBackground sys bgCache page)
        = bgCache (join sys [PROJECT_ROOT sys, the (bgImage page)])"
    if "truthy (bgImage page)
        \<and> truthy (bgCache (join sys [PROJECT_ROOT sys, the (bgImage page)]))" for page
    using that
    by (auto simp: effectiveBackground_def get_or_def truthy_def Let_def split: option.splits)
qed

text \<open>
  Four pages, two of which share an override and one of which names a missing file, on
  a disk with the default background: two reads, two cached paths, and the shared entry
  is the data URI of the shared file.
\<close>

theorem backgrounds_loaded_once_witness:
  "loads (trace \<lparr>disk = shared_disk, trace = []\<rparr>) = []
   \<and> (case loadBackgrounds (simple_sys True offline) shared_pages
             \<lparr>disk = shared_disk, trace = []\<rparr> of
         Some (Returns bgCache s) \<Rightarrow>
           loads (trace s) = [Read ''/site/assets/bg/og-background.jpg'',
                              Read ''/site/assets/bg/shared.png'']
           \<and> distinct (loads (trace s))
           \<and> card (dom bgCache) = 2
           \<and> dom bgCache = {''/site/assets/bg/og-background.jpg'', ''/site/assets/bg/shared.png''}
           \<and> bgCache ''/site/assets/bg/shared.png'' = Some ''data:image/png;base64,iVBORw==''
       | _ \<Rightarrow> False)"
proof -
  let ?S = "simple_sys True offline"
  let ?s0 = "\<lparr>disk = shared_disk, trace = []\<rparr>"
  have "\<exists>c s. loadBackgrounds ?S shared_pages ?s0 = Some (Returns c s)
           \<and> loads (trace s) = [Read ''/site/assets/bg/og-background.jpg'',
                                 Read ''/site/assets/bg/shared.png'']
           \<and> disk s = shared_disk"
    by (simp add: loadBackgrounds_def loadDefaultBackground_def loadImageAsBase64_def
        shared_pages_def shared_disk_def page_with_bg_def example_page_def DEFAULT_BG_PATH_def
        simple_join_def truthy_def say_def emit_def Let_def)
  then obtain c s where run: "loadBackgrounds ?S shared_pages ?s0 = Some (Returns c s)"
    and ls: "loads (trace s) = [Read ''/site/assets/bg/og-background.jpg'',
                                 Read ''/site/assets/bg/shared.png'']"
    and ds: "disk s = shared_disk"
    by blast
  have empty: "loads (trace ?s0) = []" by simp
  note T = backgrounds_loaded_once [OF empty, of ?S shared_pages]
  from T run have "distinct (loads (trace (final (Returns c s))))" by blast
  then have dist: "distinct (loads (trace s))" by simp
  from T run have "length (loads (trace s)) = card (dom c)" by blast
  with ls have card: "card (dom c) = 2" by simp
  from T run have d: "dom c = insert (DEFAULT_BG_PATH ?S)
      {p \<in> set (overrides ?S shared_pages). existsSync ?S (disk s) p}" by blast
  have "insert (DEFAULT_BG_PATH ?S) {p \<in> set (overrides ?S shared_pages). existsSync ?S shared_disk p}
        = {''/site/assets/bg/og-background.jpg'', ''/site/assets/bg/shared.png''}"
    by (auto simp: overrides_def shared_pages_def shared_disk_def page_with_bg_def example_page_def
        DEFAULT_BG_PATH_def simple_join_def truthy_def)
  with d ds have dom: "dom c = {''/site/assets/bg/og-background.jpg'', ''/site/assets/bg/shared.png''}"
    by simp
  from T run have "\<forall>p \<in> dom c - {DEFAULT_BG_PATH ?S}.
      fst (loadImageAsBase64 ?S p s) = Inr (the (c p))" by blast
  moreover have "''/site/assets/bg/shared.png'' \<in> dom c - {DEFAULT_BG_PATH ?S}"
    using dom by (simp add: DEFAULT_BG_PATH_def simple_join_def)
  ultimately have "fst (loadImageAsBase64 ?S ''/site/assets/bg/shared.png'' s)
      = Inr (the (c ''/site/assets/bg/shared.png''))" by blast
  moreover have "fst (loadImageAsBase64 ?S ''/site/assets/bg/shared.png'' s)
      = Inr ''data:image/png;base64,iVBORw==''"
    by (simp add: loadImageAsBase64_def ds shared_disk_def Let_def toLowerCase_def lower_char_def
        pop_def truthy_def mimeTypes_def or_else_def sextet_def base64_alphabet_def)
  moreover have "''/site/assets/bg/shared.png'' \<in> dom c" using dom by simp
  ultimately have entry: "c ''/site/assets/bg/shared.png'' = Some ''data:image/png;base64,iVBORw==''"
    by auto
  show ?thesis using run ls dist card dom entry by simp
qed

subsection \<open>The fonts\<close>

text \<open>
  However the stages before the fonts end, no page has been started, and the only file
  that can have been written is the default background.
\<close>

lemma ensureOutputDir_any:
  "writes (trace (final (ensureOutputDir sys s))) = writes (trace s)
   \<and> page_starts (trace (final (ensureOutputDir sys s))) = page_starts (trace s)
   \<and> loads (trace (final (ensureOutputDir sys s))) = loads (trace s)"
  by (auto simp: ensureOutputDir_def split: if_splits prod.splits option.splits)

lemma loadAssets_any:
  assumes "loadAssets sys pages d0 = Some r"
  shows "set (writes (trace (final r))) \<subseteq> {DEFAULT_BG_PATH sys}
         \<and> page_starts (trace (final r)) = []"
proof -
  let ?s0 = "say (Banner (length pages)) \<lparr>disk = d0, trace = []\<rparr>"
  have e: "writes (trace (final (ensureOutputDir sys ?s0))) = []"
    "page_starts (trace (final (ensureOutputDir sys ?s0))) = []"
    using ensureOutputDir_any [of sys ?s0] by simp_all
  show ?thesis
  proof (cases "ensureOutputDir sys ?s0")
    case (Returns u s1)
    with assms have b: "loadBackgrounds sys pages s1 = Some r" by (simp add: loadAssets_def)
    from e Returns have 1: "writes (trace s1) = []" "page_starts (trace s1) = []" by simp_all
    from b obtain r0 where d: "loadDefaultBackground sys s1 = Some r0"
      by (auto simp: loadBackgrounds_def split: option.splits)
    from loadDefaultBackground_any [OF d] 1
    have 2: "set (writes (trace (final r0))) \<subseteq> {DEFAULT_BG_PATH sys}"
      "page_starts (trace (final r0)) = []"
      by simp_all
    show ?thesis
    proof (cases r0)
      case (Returns c0 s2)
      with b d have "r = loadPageBackgrounds sys pages c0 s2" by (simp add: loadBackgrounds_def)
      with loadPageBackgrounds_any [of sys pages c0 s2] 2 Returns show ?thesis by auto
    next
      case (Throws e' s2)
      with b d have "r = r0" by (simp add: loadBackgrounds_def)
      with 2 show ?thesis by simp
    next
      case (Exits n s2)
      with b d have "r = r0" by (simp add: loadBackgrounds_def)
      with 2 show ?thesis by simp
    qed
  next
    case (Throws e' s1)
    with assms e show ?thesis by (auto simp: loadAssets_def)
  next
    case (Exits n s1)
    with assms e show ?thesis by (auto simp: loadAssets_def)
  qed
qed

text \<open>
  With a font file absent, the loop over the fonts never returns the fonts: it ends the
  process, or a read of an earlier font raises. Either way it writes nothing.
\<close>

lemma loadFonts_absent:
  assumes "fontFile \<in> set files"
    and "\<not> existsSync sys (disk s) (join sys [FONTS_DIR sys, fontFile])"
  shows "(\<forall>loaded s'. loadFonts sys files fonts s \<noteq> Returns loaded s')
         \<and> disk (final (loadFonts sys files fonts s)) = disk s
         \<and> writes (trace (final (loadFonts sys files fonts s))) = writes (trace s)
         \<and> page_starts (trace (final (loadFonts sys files fonts s))) = page_starts (trace s)"
  using assms
proof (induction files arbitrary: fonts s)
  case Nil
  then show ?case by simp
next
  case (Cons f rest)
  let ?path = "join sys [FONTS_DIR sys, f]"
  show ?case
  proof (cases "existsSync sys (disk s) ?path")
    case False
    then show ?thesis by (simp add: Let_def)
  next
    case True
    with Cons.prems have mem: "fontFile \<in> set rest" by auto
    let ?s1 = "emit (Read ?path) s"
    show ?thesis
    proof (cases "readFileSync sys (disk s) ?path")
      case (Inl e)
      with True show ?thesis by (simp add: Let_def)
    next
      case (Inr bytes)
      let ?fonts1 = "fonts @ [\<lparr>name = ''Montserrat'', data = bytes,
          weight = (if str_includes f ''Bold'' then 700
                    else if str_includes f ''Medium'' then 500 else 400),
          font_style = ''normal''\<rparr>]"
      have eq: "loadFonts sys (f # rest) fonts s = loadFonts sys rest ?fonts1 ?s1"
        using True Inr by (simp add: Let_def)
      have "\<not> existsSync sys (disk ?s1) (join sys [FONTS_DIR sys, fontFile])"
        using Cons.prems(2) by simp
      from Cons.IH [OF mem this, of ?fonts1] show ?thesis unfolding eq by simp
    qed
  qed
qed

text \<open>
  When every font file before the absent one is absent too or can be read, the loop ends
  the process with code 1.
\<close>

lemma loadFonts_missing:
  assumes "\<not> existsSync sys (disk s) (join sys [FONTS_DIR sys, fontFile])"
    and "\<forall>f \<in> set earlier. existsSync sys (disk s) (join sys [FONTS_DIR sys, f])
           \<longrightarrow> (\<exists>bytes. readFileSync sys (disk s) (join sys [FONTS_DIR sys, f]) = Inr bytes)"
  shows "\<exists>s'. loadFonts sys (earlier @ fontFile # later) fonts s = Exits 1 s'
               \<and> disk s' = disk s"
  using assms
proof (induction earlier arbitrary: fonts s)
  case Nil
  then show ?case by (simp add: Let_def)
next
  case (Cons f rest)
  let ?path = "join sys [FONTS_DIR sys, f]"
  show ?case
  proof (cases "existsSync sys (disk s) ?path")
    case False
    then show ?thesis by (simp add: Let_def)
  next
    case True
    with Cons.prems(2) obtain bytes where rd: "readFileSync sys (disk s) ?path = Inr bytes"
      by auto
    let ?s1 = "emit (Read ?path) s"
    let ?fonts1 = "fonts @ [\<lparr>name = ''Montserrat'', data = bytes,
        weight = (if str_includes f ''Bold'' then 700
                  else if str_includes f ''Medium'' then 500 else 400),
        font_style = ''normal''\<rparr>]"
    have "\<exists>s'. loadFonts sys (rest @ fontFile # later) ?fonts1 ?s1 = Exits 1 s'
               \<and> disk s' = disk ?s1"
      using Cons.prems by (intro Cons.IH) simp_all
    with True rd show ?thesis by (simp add: Let_def)
  qed
qed

text \<open>
  C2, as stated, fails: let one page name the directory \<^verbatim>\<open>assets/bg\<close> as its
  background, on a disk that holds this directory and no font. \<^verbatim>\<open>existsSync\<close> is
  true for the directory, \<^verbatim>\<open>readFileSync\<close> raises on it before the fonts are looked
  at, the exception leaves \<^verbatim>\<open>main\<close>, \<^verbatim>\<open>main().catch(console.error)\<close> prints it
  and the process ends with code 0.
\<close>

theorem uncaught_exception_exits_zero:
  "\<not> existsSync (simple_sys True offline) [(''/site/assets/bg'', Dir)]
        (join (simple_sys True offline)
           [FONTS_DIR (simple_sys True offline), ''Montserrat-Bold.ttf''])
   \<and> script (simple_sys True offline) [page_with_bg ''a'' ''assets/bg'']
         [(''/site/assets/bg'', Dir)]
       = Some (0, \<lparr>disk = [(''/site/public/og'', Dir), (''/site/assets/bg'', Dir)],
                   trace = [Console (Banner 1), Console (OutputDirectory ''/site/public/og''),
                            Console DownloadingDefault, Fetch DEFAULT_BG_URL,
                            Console DownloadFailed, Console GradientFallback,
                            Console (LoadingBackground ''a''), Read ''/site/assets/bg'',
                            Console (Uncaught (External ''EISDIR''))]\<rparr>)"
  by (simp add: script_def main_def loadAssets_def ensureOutputDir_def loadBackgrounds_def
      loadDefaultBackground_def tryDownload_def offline_download loadImageAsBase64_def
      page_with_bg_def OUTPUT_DIR_def DEFAULT_BG_PATH_def FONTS_DIR_def simple_join_def
      truthy_def say_def emit_def Let_def)

text \<open>
  C2, amended. Let one of the three font files be absent when the fonts are looked at.
  Then, however the run ends, no page is started and no \<^verbatim>\<open>og-{slug}.png\<close> is
  written: the only file the run can have written is the default background. This holds
  for any list of pages. The exit code is 1 when the stages before the fonts return (the
  output directory is there or can be created, no read of a background raises, the
  download is settled) and every font file that is looked at before the absent one and
  is present can be read.
\<close>

theorem missing_font_is_fatal:
  assumes "fontFiles = earlier @ fontFile # later"
    and "\<forall>bgCache s. loadAssets sys pages d0 = Some (Returns bgCache s)
            \<longrightarrow> \<not> existsSync sys (disk s) (join sys [FONTS_DIR sys, fontFile])"
  shows
   "(\<forall>code s'. script sys pages d0 = Some (code, s')
        \<longrightarrow> page_starts (trace s') = []
            \<and> set (writes (trace s')) \<subseteq> {DEFAULT_BG_PATH sys})
    \<and> (\<forall>bgCache s. loadAssets sys pages d0 = Some (Returns bgCache s)
          \<and> (\<forall>f \<in> set earlier. existsSync sys (disk s) (join sys [FONTS_DIR sys, f])
                \<longrightarrow> (\<exists>bytes. readFileSync sys (disk s) (join sys [FONTS_DIR sys, f])
                               = Inr bytes))
        \<longrightarrow> (\<exists>s'. script sys pages d0 = Some (1, s') \<and> disk s' = disk s))"
proof (rule conjI; intro allI impI)
  fix code s'
  assume run: "script sys pages d0 = Some (code, s')"
  then obtain r where a: "loadAssets sys pages d0 = Some r"
    by (auto simp: script_def main_def split: option.splits)
  note inv = loadAssets_any [OF a]
  show "page_starts (trace s') = [] \<and> set (writes (trace s')) \<subseteq> {DEFAULT_BG_PATH sys}"
  proof (cases r)
    case (Returns bgCache s)
    with a assms(2) have absent: "\<not> existsSync sys (disk s) (join sys [FONTS_DIR sys, fontFile])"
      by blast
    have mem: "fontFile \<in> set fontFiles" by (simp add: assms(1))
    let ?f = "loadFonts sys fontFiles [] s"
    from loadFonts_absent [OF mem absent, of "[]"]
    have never: "\<And>loaded t. ?f \<noteq> Returns loaded t"
      and same: "writes (trace (final ?f)) = writes (trace s)"
        "page_starts (trace (final ?f)) = page_starts (trace s)"
      by blast+
    from never run a Returns have "s' = final ?f \<or> (\<exists>e. s' = say (Uncaught e) (final ?f))"
      by (cases ?f) (auto simp: script_def main_def)
    with same inv Returns show ?thesis by auto
  next
    case (Throws e s)
    with run a have "s' = say (Uncaught e) s" by (simp add: script_def main_def)
    with inv Throws show ?thesis by simp
  next
    case (Exits n s)
    with run a have "s' = s" by (simp add: script_def main_def)
    with inv Exits show ?thesis by simp
  qed
next
  fix bgCache s
  assume h: "loadAssets sys pages d0 = Some (Returns bgCache s)
          \<and> (\<forall>f \<in> set earlier. existsSync sys (disk s) (join sys [FONTS_DIR sys, f])
                \<longrightarrow> (\<exists>bytes. readFileSync sys (disk s) (join sys [FONTS_DIR sys, f])
                               = Inr bytes))"
  with assms(2) have absent: "\<not> existsSync sys (disk s) (join sys [FONTS_DIR sys, fontFile])"
    by blast
  from loadFonts_missing [OF absent, of earlier later "[]"] h
  obtain s' where "loadFonts sys (earlier @ fontFile # later) [] s = Exits 1 s'"
    "disk s' = disk s"
    by blast
  with h show "\<exists>s'. script sys pages d0 = Some (1, s') \<and> disk s' = disk s"
    by (auto simp: script_def main_def assms(1))
qed

text \<open>
  The regular weight is missing from the fonts directory: exit code 1, no page started,
  nothing written.
\<close>

theorem missing_font_is_fatal_witness:
  "fontFiles = [''Montserrat-Bold.ttf'', ''Montserrat-Medium.ttf'']
               @ ''Montserrat-Regular.ttf'' # []
   \<and> (\<exists>s'. script (simple_sys True offline) PAGES two_fonts_disk = Some (1, s')
          \<and> disk s' = two_fonts_disk \<and> page_starts (trace s') = []
          \<and> set (writes (trace s')) \<subseteq> {DEFAULT_BG_PATH (simple_sys True offline)})"
proof -
  let ?S = "simple_sys True offline"
  have split: "fontFiles = [''Montserrat-Bold.ttf'', ''Montserrat-Medium.ttf'']
               @ ''Montserrat-Regular.ttf'' # []"
    by (simp add: fontFiles_def)
  have "\<exists>c s. loadAssets ?S PAGES two_fonts_disk = Some (Returns c s) \<and> disk s = two_fonts_disk"
    by (simp add: loadAssets_def ensureOutputDir_def loadBackgrounds_def loadDefaultBackground_def
        tryDownload_def offline_download PAGES_def two_fonts_disk_def OUTPUT_DIR_def
        DEFAULT_BG_PATH_def simple_join_def truthy_def say_def emit_def)
  then obtain c s where a: "loadAssets ?S PAGES two_fonts_disk = Some (Returns c s)"
    and d: "disk s = two_fonts_disk" by blast
  have n: "\<forall>bgCache s. loadAssets ?S PAGES two_fonts_disk = Some (Returns bgCache s)
            \<longrightarrow> \<not> existsSync ?S (disk s) (join ?S [FONTS_DIR ?S, ''Montserrat-Regular.ttf''])"
    using a d by (auto simp: two_fonts_disk_def FONTS_DIR_def simple_join_def)
  have r: "\<forall>f \<in> set [''Montserrat-Bold.ttf'', ''Montserrat-Medium.ttf''].
             existsSync ?S (disk s) (join ?S [FONTS_DIR ?S, f])
             \<longrightarrow> (\<exists>bytes. readFileSync ?S (disk s) (join ?S [FONTS_DIR ?S, f]) = Inr bytes)"
    by (simp add: d two_fonts_disk_def FONTS_DIR_def simple_join_def)
  note T = missing_font_is_fatal [OF split n]
  from T a r obtain s' where s': "script ?S PAGES two_fonts_disk = Some (1, s')"
    "disk s' = disk s" by blast
  from T s'(1) have "page_starts (trace s') = []
      \<and> set (writes (trace s')) \<subseteq> {DEFAULT_BG_PATH ?S}" by blast
  with s' d split show ?thesis by auto
qed

end
